theory Spec2Isabelle
  imports Complex_Main "HOL-Library.Sublist"
begin

section \<open>String primitives of the JavaScript runtime\<close>

text \<open>
  \<^verbatim>\<open>fetchData.js\<close> works on JavaScript strings through \<^verbatim>\<open>trim\<close>, \<^verbatim>\<open>includes\<close>,
  \<^verbatim>\<open>split\<close>, \<^verbatim>\<open>toLowerCase\<close> and \<^verbatim>\<open>substring\<close>. Strings are modelled as
  \<^typ>\<open>string\<close>, one \<^typ>\<open>char\<close> per code unit, so the model covers the strings whose code
  units are all below 256 (U+0000 to U+00FF). In that range the white space and line
  terminators that \<^verbatim>\<open>trim\<close> removes are TAB, LF, VT, FF, CR, SPACE and the no-break
  space U+00A0, and \<^verbatim>\<open>toLowerCase\<close> adds 32 to the code units of \<open>A\<close> to \<open>Z\<close> and of the
  accented capitals U+00C0 to U+00DE other than the multiplication sign U+00D7.
\<close>

definition isWhiteSpace :: "char \<Rightarrow> bool" where
  "isWhiteSpace c =
     (c \<in> {CHR 0x09, CHR 0x0A, CHR 0x0B, CHR 0x0C, CHR 0x0D, CHR 0x20, CHR 0xA0})"

definition trim :: "string \<Rightarrow> string" where
  "trim s = rev (dropWhile isWhiteSpace (rev (dropWhile isWhiteSpace s)))"

definition isUpperCase :: "char \<Rightarrow> bool" where
  "isUpperCase c =
     (let u = (of_char c :: nat)
      in (65 \<le> u \<and> u \<le> 90) \<or> (192 \<le> u \<and> u \<le> 222 \<and> u \<noteq> 215))"

definition lowerChar :: "char \<Rightarrow> char" where
  "lowerChar c = (if isUpperCase c then char_of (of_char c + (32::nat)) else c)"

definition toLowerCase :: "string \<Rightarrow> string" where
  "toLowerCase s = map lowerChar s"

text \<open>\<^verbatim>\<open>s.includes(m)\<close>: \<open>m\<close> occurs in \<open>s\<close> as a contiguous run.\<close>

fun includesStr :: "string \<Rightarrow> string \<Rightarrow> bool" where
  "includesStr [] m = (m = [])"
| "includesStr (c # cs) m = (prefix m (c # cs) \<or> includesStr cs m)"

text \<open>
  \<^verbatim>\<open>s.split(sep)\<close> for a non-empty separator: the pieces between the successive
  non-overlapping occurrences of \<open>sep\<close>, scanned from the left. \<open>cur\<close> is the piece being
  collected. (The source never splits on the empty string.)
\<close>

function splitFrom :: "string \<Rightarrow> string \<Rightarrow> string \<Rightarrow> string list" where
  "splitFrom sep cur [] = [cur]"
| "splitFrom sep cur (c # cs) =
     (if sep \<noteq> [] \<and> prefix sep (c # cs)
      then cur # splitFrom sep [] (drop (length sep) (c # cs))
      else splitFrom sep (cur @ [c]) cs)"
  by pat_completeness auto
termination
  by (relation "measure (\<lambda>(sep, cur, s). length s)") (auto simp: neq_Nil_conv)

definition splitStr :: "string \<Rightarrow> string \<Rightarrow> string list" where
  "splitStr s sep = splitFrom sep [] s"

text \<open>\<^verbatim>\<open>xs.find(p)\<close>: the first element satisfying \<open>p\<close>, \<^verbatim>\<open>undefined\<close> as \<open>None\<close>.\<close>

fun findFirst :: "('a \<Rightarrow> bool) \<Rightarrow> 'a list \<Rightarrow> 'a option" where
  "findFirst p [] = None"
| "findFirst p (x # xs) = (if p x then Some x else findFirst p xs)"

text \<open>
  \<^verbatim>\<open>s.replace(pat, rep)\<close> with a string pattern: the first occurrence only. (The
  replacement strings of the source contain no \<^verbatim>\<open>$\<close> pattern.)
\<close>

fun replaceFirst :: "string \<Rightarrow> string \<Rightarrow> string \<Rightarrow> string" where
  "replaceFirst [] pat rep = (if pat = [] then rep else [])"
| "replaceFirst (c # cs) pat rep =
     (if prefix pat (c # cs) then rep @ drop (length pat) (c # cs)
      else c # replaceFirst cs pat rep)"

text \<open>A non-negative integer inside a template literal prints in decimal.\<close>

definition digitChar :: "nat \<Rightarrow> char" where
  "digitChar d = ''0123456789'' ! d"

function showNat :: "nat \<Rightarrow> string" where
  "showNat n = (if n < 10 then [digitChar n] else showNat (n div 10) @ [digitChar (n mod 10)])"
  by pat_completeness auto
termination
  by (relation "measure id") auto

declare showNat.simps [simp del]

section \<open>Retry executor\<close>

text \<open>
  \<^verbatim>\<open>
  async function fetchWithRetry(fn, retries = 3) {
    for (let i = 0; i < retries; i++) {
      try {
        return await fn();
      } catch (err) {
        if (i === retries - 1) throw err;
        await new Promise((r) => setTimeout(r, 1000 * Math.pow(2, i)));
        console.log(`Retry ${i + 1}/${retries}`);
      }
    }
  }
  \<close>
  The operation \<open>fn\<close> acts on a world \<open>'s\<close> and either throws (\<open>Inl\<close>) or returns
  (\<open>Inr\<close>). The executor's state records the world, the number of calls made, the delays
  waited (in milliseconds, in order) and the retry lines logged. A promise settles in one
  of three ways: the loop returns a value, it rethrows, or it runs off its end and the
  function returns \<^verbatim>\<open>undefined\<close>.

  The bound is any finite number, whole or not, and the counter a natural number. Both
  are doubles in the code; the model computes exactly, which is what the code computes
  for a bound of at most \<open>2\<^sup>5\<^sup>3\<close>: up to there the counter and its successor are exact
  and the two tests on the counter come out the same. (A bound of \<^verbatim>\<open>NaN\<close> or
  \<^verbatim>\<open>-Infinity\<close> never enters the loop, like the bound 0. Bounds above \<open>2\<^sup>5\<^sup>3\<close> and
  \<^verbatim>\<open>Infinity\<close> are outside the model.)

  The timer is the runtime's: \<^verbatim>\<open>setTimeout\<close> in Node waits the delay it is given when
  that lies between 1 and \<open>2\<^sup>3\<^sup>1 - 1\<close> milliseconds, and 1 millisecond otherwise.
  \<open>1000 * 2 ^ i\<close> is exact in a double as long as it is finite, and both a larger finite
  value and \<^verbatim>\<open>Infinity\<close> are above the maximum.
\<close>

datatype ('e, 'a) settled = Resolved 'a | Rejected 'e | ResolvedUndefined

record 's retryState =
  world :: 's
  calls :: nat
  delays :: "nat list"
  retryLog :: "(nat \<times> rat) list"

definition TIMEOUT_MAX :: nat where
  "TIMEOUT_MAX = 2147483647"

definition setTimeoutWait :: "nat \<Rightarrow> nat" where
  "setTimeoutWait after = (if 1 \<le> after \<and> after \<le> TIMEOUT_MAX then after else 1)"

function fetchLoop ::
  "('s \<Rightarrow> ('e + 'a) \<times> 's) \<Rightarrow> rat \<Rightarrow> nat \<Rightarrow> 's retryState \<Rightarrow> ('e, 'a) settled \<times> 's retryState"
where
  "fetchLoop fn retries i st =
     (if of_nat i < retries then
        (case fn (world st) of
           (Inr v, w) \<Rightarrow> (Resolved v, st\<lparr>world := w, calls := Suc (calls st)\<rparr>)
         | (Inl err, w) \<Rightarrow>
             if of_nat i = retries - 1
             then (Rejected err, st\<lparr>world := w, calls := Suc (calls st)\<rparr>)
             else fetchLoop fn retries (Suc i)
                    (st\<lparr>world := w, calls := Suc (calls st),
                       delays := delays st @ [setTimeoutWait (1000 * 2 ^ i)],
                       retryLog := retryLog st @ [(Suc i, retries)]\<rparr>))
      else (ResolvedUndefined, st))"
  by pat_completeness auto
termination
  by (relation "measure (\<lambda>(fn, retries, i, st). nat \<lceil>retries\<rceil> - i)")
    (simp_all add: diff_less_mono2 less_ceiling_iff nat_less_iff zless_nat_eq_int_zless)

declare fetchLoop.simps [simp del]

definition fetchWithRetry ::
  "('s \<Rightarrow> ('e + 'a) \<times> 's) \<Rightarrow> rat \<Rightarrow> 's \<Rightarrow> ('e, 'a) settled \<times> 's retryState" where
  "fetchWithRetry fn retries w =
     fetchLoop fn retries 0 \<lparr>world = w, calls = 0, delays = [], retryLog = []\<rparr>"

definition defaultRetries :: rat where
  "defaultRetries = 3"

text \<open>
  What the successive calls of an operation do, started in world \<open>w\<close>: the world before
  call number \<open>n\<close> (counted from 0) and the outcome of that call.
\<close>

fun worldAfter :: "('s \<Rightarrow> ('e + 'a) \<times> 's) \<Rightarrow> 's \<Rightarrow> nat \<Rightarrow> 's" where
  "worldAfter fn w 0 = w"
| "worldAfter fn w (Suc n) = worldAfter fn (snd (fn w)) n"

definition attempt :: "('s \<Rightarrow> ('e + 'a) \<times> 's) \<Rightarrow> 's \<Rightarrow> nat \<Rightarrow> 'e + 'a" where
  "attempt fn w n = fst (fn (worldAfter fn w n))"

text \<open>The delays waited after the first \<open>n\<close> failed calls that are followed by another call.\<close>

definition backoff :: "nat \<Rightarrow> nat list" where
  "backoff n = map (\<lambda>i. setTimeoutWait (1000 * 2 ^ i)) [0..<n]"

text \<open>
  Every network call of the adapters is \<^verbatim>\<open>await fetchWithRetry(() => axios.get(url))\<close>
  with the default bound. The remote end is given by the outcome of each successive
  request; an error carries its message. Were the promise to resolve to
  \<^verbatim>\<open>undefined\<close>, the \<^verbatim>\<open>response.data\<close> that follows every call would throw a
  \<^verbatim>\<open>TypeError\<close>.
\<close>

datatype error = Error string

fun message :: "error \<Rightarrow> string" where
  "message (Error m) = m"

definition awaitFetch :: "(nat \<Rightarrow> error + 'a) \<Rightarrow> error + 'a" where
  "awaitFetch requests =
     (case fst (fetchWithRetry (\<lambda>n. (requests n, Suc n)) defaultRetries 0) of
        Resolved response \<Rightarrow> Inr response
      | Rejected err \<Rightarrow> Inl err
      | ResolvedUndefined \<Rightarrow> Inl (Error ''Cannot read properties of undefined''))"

section \<open>Weather adapter: snow-accumulation phrase\<close>

text \<open>
  Lines 127 to 138 of \<^verbatim>\<open>getWeatherData\<close>:
  \<^verbatim>\<open>
  const snowString = "New snow accumulation";
  let snowAccumulation = "";
  if (period.detailedForecast.includes(snowString)) {
    const sentences = period.detailedForecast.split(".");
    const snowSentence = sentences.find((s) => s.includes(snowString));
    if (snowSentence) {
      snowAccumulation = snowSentence.trim();
    }
  }
  \<close>
  The test \<^verbatim>\<open>if (snowSentence)\<close> is false for \<^verbatim>\<open>undefined\<close> and for the empty string.
\<close>

definition snowString :: string where
  "snowString = ''New snow accumulation''"

definition snowAccumulation :: "string \<Rightarrow> string" where
  "snowAccumulation detailedForecast =
     (if includesStr detailedForecast snowString
      then (case findFirst (\<lambda>s. includesStr s snowString) (splitStr detailedForecast ''.'') of
              None \<Rightarrow> ''''
            | Some snowSentence \<Rightarrow> if snowSentence \<noteq> [] then trim snowSentence else '''')
      else '''')"

text \<open>
  The extraction rule in the words of the specification: split on periods, take the first
  sentence containing the marker, trimmed; the empty string when there is none.
\<close>

definition specSnowExtraction :: "string \<Rightarrow> string" where
  "specSnowExtraction d =
     (case findFirst (\<lambda>s. includesStr s ''New snow accumulation'') (splitStr d ''.'') of
        None \<Rightarrow> ''''
      | Some s \<Rightarrow> trim s)"

section \<open>Weather adapter\<close>

text \<open>
  The configured locations; a coordinate is kept as the text it prints as in the request
  URL.
\<close>

record location =
  lat :: string
  lon :: string
  name :: string

definition LOCATIONS :: "(string \<times> location) list" where
  "LOCATIONS =
     [(''shelbyTownship'', \<lparr>lat = ''42.6711'', lon = ''-83.0328'', name = ''Shelby Township''\<rparr>),
      (''nubsNob'', \<lparr>lat = ''45.47'', lon = ''-84.903'', name = ''Nubs Nob''\<rparr>),
      (''otsegoResort'',
        \<lparr>lat = ''45.032644409325755'', lon = ''-84.65170507777471'', name = ''Otsego Resort''\<rparr>)]"

text \<open>
  A period of the provider's general forecast, as the code reads it:
  \<^verbatim>\<open>probabilityOfPrecipitation.value\<close> is a number or \<^verbatim>\<open>null\<close>.
\<close>

record period =
  periodName :: string
  startTime :: string
  temperature :: int
  probabilityOfPrecipitation :: "int option"
  shortForecast :: string
  detailedForecast :: string

text \<open>
  An entry of the output. \<^verbatim>\<open>timestamp\<close> is \<open>None\<close> for \<^verbatim>\<open>NaN\<close>; \<^verbatim>\<open>temp\<close> and
  \<^verbatim>\<open>snowfall\<close> are \<open>None\<close> for \<^verbatim>\<open>null\<close>; the placeholder has no
  \<^verbatim>\<open>detailedForecast\<close> property.
\<close>

record forecastPeriod =
  fpName :: string
  timestamp :: "int option"
  temp :: "int option"
  snowfall :: "int option"
  snowAmount :: string
  fpShortForecast :: string
  fpDetailedForecast :: "string option"

record weatherEntry =
  weName :: string
  forecast :: "forecastPeriod list"

text \<open>
  The surroundings of the weather adapter. The three requests made for a location are
  given per location key and URL, each as the outcomes of its successive attempts: the
  point lookup yields the forecast URL (\<^verbatim>\<open>data.properties.forecast\<close>), the general
  forecast yields the periods (\<^verbatim>\<open>data.properties.periods\<close>), the hourly forecast yields
  a body of any type \<open>'h\<close>. \<open>Inl\<close> also stands for a body without the expected
  fields: reading them throws inside the same \<^verbatim>\<open>try\<close>. \<open>clock\<close> is the reading of
  \<^verbatim>\<open>new Date().getTime()\<close> when the \<^verbatim>\<open>catch\<close> of a location runs, and
  \<open>dateParse\<close> is the runtime's \<^verbatim>\<open>new Date(string)\<close>, \<open>None\<close> for an invalid date.
\<close>

record 'h weatherEnv =
  dnsOk :: bool
  pointFetch :: "string \<Rightarrow> string \<Rightarrow> nat \<Rightarrow> error + string"
  forecastFetch :: "string \<Rightarrow> string \<Rightarrow> nat \<Rightarrow> error + period list"
  hourlyFetch :: "string \<Rightarrow> string \<Rightarrow> nat \<Rightarrow> error + 'h"
  clock :: "string \<Rightarrow> int"
  dateParse :: "string \<Rightarrow> int option"

definition processPeriod :: "(string \<Rightarrow> int option) \<Rightarrow> period \<Rightarrow> forecastPeriod" where
  "processPeriod parseDate p =
     \<lparr>fpName = periodName p,
      timestamp = parseDate (startTime p),
      temp = Some (temperature p),
      snowfall = Some (case probabilityOfPrecipitation p of
                         None \<Rightarrow> 0
                       | Some v \<Rightarrow> if v \<noteq> 0 then v else 0),
      snowAmount = snowAccumulation (detailedForecast p),
      fpShortForecast = shortForecast p,
      fpDetailedForecast = Some (detailedForecast p)\<rparr>"

definition placeholder :: "location \<Rightarrow> int \<Rightarrow> weatherEntry" where
  "placeholder loc now =
     \<lparr>weName = name loc,
      forecast =
        [\<lparr>fpName = ''Unavailable'',
          timestamp = Some now,
          temp = None,
          snowfall = None,
          snowAmount = ''0.0'',
          fpShortForecast = ''Weather data temporarily unavailable'',
          fpDetailedForecast = None\<rparr>]\<rparr>"

text \<open>
  One iteration of the loop over \<^verbatim>\<open>Object.entries(LOCATIONS)\<close>: the body of the
  \<^verbatim>\<open>try\<close> and, for any error in it, the \<^verbatim>\<open>catch\<close>. \<^verbatim>\<open>Promise.all\<close> rejects as
  soon as one of the two forecast requests does.
\<close>

definition locationEntry :: "'h weatherEnv \<Rightarrow> string \<Rightarrow> location \<Rightarrow> weatherEntry" where
  "locationEntry env locationKey loc =
     (case awaitFetch (pointFetch env locationKey
                         (''https://api.weather.gov/points/'' @ lat loc @ '','' @ lon loc)) of
        Inl err \<Rightarrow> placeholder loc (clock env locationKey)
      | Inr forecastUrl \<Rightarrow>
          (let hourlyForecastUrl = replaceFirst forecastUrl ''/forecast'' ''/forecast/hourly''
           in case (awaitFetch (forecastFetch env locationKey forecastUrl),
                    awaitFetch (hourlyFetch env locationKey hourlyForecastUrl)) of
                (Inr periods, Inr hourlyResponse) \<Rightarrow>
                  \<lparr>weName = name loc,
                   forecast = map (processPeriod (dateParse env)) (take 20 periods)\<rparr>
              | _ \<Rightarrow> placeholder loc (clock env locationKey)))"

definition getWeatherData :: "'h weatherEnv \<Rightarrow> (string \<rightharpoonup> weatherEntry)" where
  "getWeatherData env =
     (if \<not> dnsOk env then Map.empty
      else foldl (\<lambda>weatherData (locationKey, loc).
                    weatherData(locationKey \<mapsto> locationEntry env locationKey loc))
             Map.empty LOCATIONS)"

section \<open>Resort-bulletin adapter\<close>

text \<open>
  The per-park variant of \<^verbatim>\<open>getMetroparkConditions\<close> (one request per park, lines 660 to
  730). A fetched page is seen through the selectors the code applies: the panel with the
  park's id, if any, its title text, and its \<^verbatim>\<open>strong\<close> elements in document order, each
  with its own text and the text of its parent when that is a paragraph (the empty string
  otherwise).
\<close>

record strongElement =
  strongText :: string
  parentParagraph :: string

record panel =
  titleText :: string
  strongs :: "strongElement list"

record bulletinSection =
  header :: string
  content :: string

record parkEntry =
  sections :: "bulletinSection list"
  title :: "string option"
  error :: "string option"

definition parkMap :: "(string \<times> string list) list" where
  "parkMap =
     [(''HuronMeadowsMetropark'', [''Bucks Run'', ''Natural Snow Classic and Skate Ski Trails'']),
      (''StonyCreekMetropark'', [''Stony Creek Cross Country''])]"

definition baseUrl :: string where
  "baseUrl = ''https://www.metroparks.com/park-closures/''"

definition panelSections :: "string list \<Rightarrow> strongElement list \<Rightarrow> bulletinSection list" where
  "panelSections searchTerms elements =
     concat (map (\<lambda>element.
        let strongText' = trim (strongText element) in
        if list_ex (\<lambda>term. includesStr strongText' term) searchTerms
        then (let fullText = trim (parentParagraph element)
              in [\<lparr>header = strongText',
                   content = trim (drop (length strongText') fullText)\<rparr>])
        else []) elements)"

definition parkHandler ::
  "(string \<Rightarrow> string \<Rightarrow> nat \<Rightarrow> error + panel option) \<Rightarrow> string \<times> string list \<Rightarrow> parkEntry" where
  "parkHandler parkFetch park =
     (case park of (parkId, searchTerms) \<Rightarrow>
        (case awaitFetch (parkFetch parkId (baseUrl @ ''#'' @ parkId)) of
           Inr None \<Rightarrow> \<lparr>sections = [], title = None, error = None\<rparr>
         | Inr (Some parkPanel) \<Rightarrow>
             \<lparr>sections = panelSections searchTerms (strongs parkPanel),
              title = Some (trim (titleText parkPanel)),
              error = None\<rparr>
         | Inl err \<Rightarrow>
             \<lparr>sections = [], title = None,
              error = Some (''Failed to fetch conditions: '' @ message err)\<rparr>))"

text \<open>
  The handlers run under \<^verbatim>\<open>Promise.all\<close>; each stores its entry under its own park id
  when its request settles. \<open>order\<close> is the order in which they settle.
\<close>

definition getMetroparkConditions ::
  "(string \<Rightarrow> string \<Rightarrow> nat \<Rightarrow> error + panel option) \<Rightarrow> (string \<times> string list) list
     \<Rightarrow> (string \<rightharpoonup> parkEntry)" where
  "getMetroparkConditions parkFetch order =
     foldl (\<lambda>conditions park. conditions(fst park \<mapsto> parkHandler parkFetch park))
       Map.empty order"

section \<open>Regional trail-report adapter\<close>

text \<open>
  A \<^verbatim>\<open>Date\<close> object is its time value, \<open>None\<close> for an invalid date (\<^verbatim>\<open>NaN\<close>).
  \<^verbatim>\<open>parseDateFromHeader\<close> returns such an object or \<^verbatim>\<open>null\<close> (the outer \<open>None\<close>):
  \<^verbatim>\<open>
  const parts = dateText.split(", ");
  if (parts.length !== 2) return null;
  const datePart = parts[1]; // "Jan 14"
  const currentYear = new Date().getFullYear();
  return new Date(`${datePart}, ${currentYear}`);
  \<close>
  Neither \<^verbatim>\<open>split\<close> nor the \<^verbatim>\<open>Date\<close> constructor throws on a string, so the
  \<^verbatim>\<open>catch\<close> of the function is never entered. The constructor and the current year
  are parameters.
\<close>

type_synonym jsDate = "int option"

definition parseDateFromHeader ::
  "(string \<Rightarrow> int option) \<Rightarrow> nat \<Rightarrow> string \<Rightarrow> jsDate option" where
  "parseDateFromHeader newDate currentYear dateText =
     (let parts = splitStr dateText '', '' in
      if length parts \<noteq> 2 then None
      else (let datePart = parts ! 1
            in Some (newDate (datePart @ '', '' @ showNat currentYear))))"

text \<open>
  \<^verbatim>\<open>a > b\<close> on two \<^verbatim>\<open>Date\<close> objects compares their time values, and is false as soon
  as one of them is \<^verbatim>\<open>NaN\<close>.
\<close>

definition laterThan :: "jsDate \<Rightarrow> jsDate \<Rightarrow> bool" where
  "laterThan a b = (case (a, b) of (Some x, Some y) \<Rightarrow> x > y | _ \<Rightarrow> False)"

record h4 =
  headerText :: string
  nextParagraph :: string

record trailEntry =
  lastUpdated :: string
  conditions :: string
  date :: "jsDate option"

definition regions :: "nat list" where
  "regions = [11, 13]"

definition relevantLocations :: "string list" where
  "relevantLocations = [''Nubs Nob'', ''Huron Meadows Metropark'', ''Shelby Township'']"

definition relevantLocation :: "string \<Rightarrow> string option" where
  "relevantLocation locationSection =
     findFirst (\<lambda>location. includesStr (toLowerCase locationSection) (toLowerCase location))
       relevantLocations"

text \<open>
  Lines 303 to 319, the part of the \<^verbatim>\<open>h4\<close> callback after the two sections are cut
  out of the header. An entry is an object, so \<^verbatim>\<open>!conditions[locationSection]\<close> holds
  exactly when the key has no entry (no property inherited from \<^verbatim>\<open>Object.prototype\<close>
  has a name containing one of the relevant locations). A \<^verbatim>\<open>Date\<close> object is truthy
  even when invalid; only \<^verbatim>\<open>null\<close> is not.
\<close>

definition mergeReport ::
  "(string \<Rightarrow> int option) \<Rightarrow> nat \<Rightarrow> (string \<rightharpoonup> trailEntry) \<Rightarrow> string \<Rightarrow> string \<Rightarrow> string
     \<Rightarrow> (string \<rightharpoonup> trailEntry)" where
  "mergeReport newDate currentYear conds dateSection locationSection paragraph =
     (case relevantLocation locationSection of
        None \<Rightarrow> conds
      | Some _ \<Rightarrow>
          (let reportText = trim paragraph;
               currentDate = parseDateFromHeader newDate currentYear dateSection
           in if (case conds locationSection of
                    None \<Rightarrow> True
                  | Some existing \<Rightarrow>
                      (case (currentDate, date existing) of
                         (Some cur, Some old) \<Rightarrow> laterThan cur old
                       | _ \<Rightarrow> False))
              then conds(locationSection \<mapsto>
                     \<lparr>lastUpdated = dateSection, conditions = reportText, date = currentDate\<rparr>)
              else conds))"

text \<open>Lines 288 to 320: the whole callback of \<^verbatim>\<open>$("h4").each\<close>.\<close>

definition processHeader ::
  "(string \<Rightarrow> int option) \<Rightarrow> nat \<Rightarrow> (string \<rightharpoonup> trailEntry) \<Rightarrow> h4 \<Rightarrow> (string \<rightharpoonup> trailEntry)" where
  "processHeader newDate currentYear conds hdr =
     (let parts = splitStr (trim (headerText hdr)) '':'' in
      if length parts < 2 then conds
      else (let dateSection = trim (parts ! 0);
                locationSection = trim (parts ! 1)
            in mergeReport newDate currentYear conds dateSection locationSection
                 (nextParagraph hdr)))"

text \<open>
  The surroundings of the adapter: the requests per region (each yielding the \<^verbatim>\<open>h4\<close>
  elements of the page in document order), the \<^verbatim>\<open>Date\<close> constructor and the year.
\<close>

record nordicEnv =
  regionFetch :: "nat \<Rightarrow> nat \<Rightarrow> error + h4 list"
  newDate :: "string \<Rightarrow> int option"
  currentYear :: nat

definition regionHandler :: "nordicEnv \<Rightarrow> (string \<rightharpoonup> trailEntry) \<Rightarrow> nat \<Rightarrow> (string \<rightharpoonup> trailEntry)" where
  "regionHandler env conds region =
     (case awaitFetch (regionFetch env region) of
        Inl err \<Rightarrow> conds
      | Inr headers \<Rightarrow> foldl (processHeader (newDate env) (currentYear env)) conds headers)"

record trailReport =
  trLastUpdated :: string
  trConditions :: string

definition deleteDate :: "trailEntry \<Rightarrow> trailReport" where
  "deleteDate condition =
     \<lparr>trLastUpdated = lastUpdated condition, trConditions = conditions condition\<rparr>"

text \<open>
  The region handlers run under \<^verbatim>\<open>Promise.all\<close>; the callback over a page runs without
  interruption once the page has arrived. \<open>order\<close> is the order in which the regions'
  pages are processed, a parameter.
\<close>

definition mergedConditions :: "nordicEnv \<Rightarrow> nat list \<Rightarrow> (string \<rightharpoonup> trailEntry)" where
  "mergedConditions env order = foldl (regionHandler env) Map.empty order"

definition getNordicSkiRacerConditions :: "nordicEnv \<Rightarrow> nat list \<Rightarrow> (string \<rightharpoonup> trailReport)" where
  "getNordicSkiRacerConditions env order = map_option deleteDate \<circ> mergedConditions env order"

section \<open>Single-resort conditions adapter\<close>

text \<open>
  A fetched page is the list of its \<^verbatim>\<open>.glm-conditions-record.flex\<close> rows, each the texts
  of its \<^verbatim>\<open>.conditions-cell\<close> elements. Wrapping a missing element gives an empty
  selection, whose text is the empty string.
\<close>

definition cellText :: "string list \<Rightarrow> nat \<Rightarrow> string" where
  "cellText cells k = (if k < length cells then cells ! k else [])"

definition getValueByLabel :: "string list list \<Rightarrow> string \<Rightarrow> string" where
  "getValueByLabel rows label =
     trim (cellText (concat (filter (\<lambda>cells. trim (cellText cells 0) = label) rows)) 1)"

record snowData =
  daily :: string
  threeDays :: string
  sevenDays :: string
  ytd :: string

definition getSnowData :: "string list list \<Rightarrow> snowData" where
  "getSnowData rows =
     (let snowRecord = filter (\<lambda>cells. trim (cellText cells 0) = ''New Snow since yesterday:'') rows
      in if snowRecord \<noteq> []
         then (let cells = concat snowRecord
               in \<lparr>daily = trim (cellText cells 1),
                   threeDays = trim (cellText cells 2),
                   sevenDays = trim (cellText cells 3),
                   ytd = trim (cellText cells 4)\<rparr>)
         else \<lparr>daily = [], threeDays = [], sevenDays = [], ytd = []\<rparr>)"

record resortConditions =
  rcDate :: string
  liftsOpen :: string
  xcTrails :: string
  nightSkiing :: string
  comments :: string
  rcSnowData :: snowData

text \<open>The request is not inside any \<^verbatim>\<open>try\<close>: its error is the adapter's.\<close>

definition getNubsNobConditions :: "(nat \<Rightarrow> error + string list list) \<Rightarrow> error + resortConditions" where
  "getNubsNobConditions pageFetch =
     (case awaitFetch pageFetch of
        Inl err \<Rightarrow> Inl err
      | Inr rows \<Rightarrow>
          Inr \<lparr>rcDate = getValueByLabel rows ''Date:'',
               liftsOpen = getValueByLabel rows ''Lifts Open:'',
               xcTrails = getValueByLabel rows ''XC Trail System:'',
               nightSkiing = getValueByLabel rows ''Night Skiing:'',
               comments = getValueByLabel rows ''Comments:'',
               rcSnowData = getSnowData rows\<rparr>)"

section \<open>Aggregator, publisher and entry point\<close>

text \<open>
  The object literal of \<^verbatim>\<open>main\<close> is a list of properties in the order they are
  written, each value of its own kind.
\<close>

datatype docSection =
    Timestamp string
  | Weather "string \<rightharpoonup> weatherEntry"
  | MetroparkConditions "string \<rightharpoonup> parkEntry"
  | NordicConditions "string \<rightharpoonup> trailReport"
  | NubsNob resortConditions

type_synonym document = "(string \<times> docSection) list"

text \<open>
  The parameters of \<^verbatim>\<open>octokit.repos.createOrUpdateFileContents\<close>; \<open>sha = None\<close> is
  the property left \<^verbatim>\<open>undefined\<close>.
\<close>

record writeRequest =
  owner :: string
  repo :: string
  path :: string
  commitMessage :: string
  fileContent :: string
  sha :: "string option"

datatype storeCall =
    GetContent string string string
  | CreateOrUpdateFileContents writeRequest

text \<open>
  The surroundings of a run. The remote store holds the file \<^verbatim>\<open>data/conditions.json\<close> or
  not: \<open>remoteMarker\<close> is the revision marker (\<^verbatim>\<open>sha\<close>) of the file, \<open>None\<close> when there is
  no file. The read may fail for a reason of its own (network, credentials, rate limit),
  whatever the store holds: \<open>readFailure\<close> is that error, if any. The store answers a
  write with an error or not. \<^verbatim>\<open>JSON.stringify(data, null, indent)\<close> and the base64
  encoding are the runtime's.
\<close>

record 'h surroundings =
  weatherEnv :: "'h weatherEnv"
  parkFetch :: "string \<Rightarrow> string \<Rightarrow> nat \<Rightarrow> error + panel option"
  parkOrder :: "(string \<times> string list) list"
  nordicEnv :: nordicEnv
  regionOrder :: "nat list"
  nubsNobFetch :: "nat \<Rightarrow> error + string list list"
  isoTimestamp :: string
  GITHUB_OWNER :: string
  GITHUB_REPO :: string
  DISCORD_WEBHOOK :: "string option"
  remoteMarker :: "string option"
  readFailure :: "error option"
  createOrUpdate :: "writeRequest \<Rightarrow> error + unit"
  jsonStringify :: "document \<Rightarrow> nat \<Rightarrow> string"
  base64 :: "string \<Rightarrow> string"

text \<open>
  \<^verbatim>\<open>octokit.repos.getContent\<close> for the path: it throws the read's own failure if there is
  one, throws \<^verbatim>\<open>Not Found\<close> when the store has no file, and otherwise returns the file
  data, of which the code reads the \<^verbatim>\<open>sha\<close>.
\<close>

definition getContent :: "'h surroundings \<Rightarrow> error + string" where
  "getContent s =
     (case readFailure s of
        Some err \<Rightarrow> Inl err
      | None \<Rightarrow>
          (case remoteMarker s of
             None \<Rightarrow> Inl (Error ''Not Found'')
           | Some marker \<Rightarrow> Inr marker))"

text \<open>
  Lines 455 to 461. The four adapters are awaited in turn; only
  \<^verbatim>\<open>getNubsNobConditions\<close> can throw.
\<close>

definition assemble :: "'h surroundings \<Rightarrow> error + document" where
  "assemble s =
     (let weather = getWeatherData (weatherEnv s);
          metroparkConditions = getMetroparkConditions (parkFetch s) (parkOrder s);
          nordicConditions = getNordicSkiRacerConditions (nordicEnv s) (regionOrder s)
      in case getNubsNobConditions (nubsNobFetch s) of
           Inl err \<Rightarrow> Inl err
         | Inr nubsNob \<Rightarrow>
             Inr [(''timestamp'', Timestamp (isoTimestamp s)),
                  (''weather'', Weather weather),
                  (''metroparkConditions'', MetroparkConditions metroparkConditions),
                  (''nordicConditions'', NordicConditions nordicConditions),
                  (''nubsNob'', NubsNob nubsNob)])"

text \<open>
  \<^verbatim>\<open>updateGitHubData\<close>: the calls made to the store, in order, and how the function
  ends. Lines 415 to 426: the \<^verbatim>\<open>catch\<close> around the read has the comment "File doesn't
  exist yet, that's OK" and logs "File does not exist yet, will create it"; it catches
  every error of the read and leaves \<^verbatim>\<open>sha\<close> undefined.
\<close>

definition updateGitHubData :: "'h surroundings \<Rightarrow> document \<Rightarrow> (error + unit) \<times> storeCall list" where
  "updateGitHubData s data =
     (let path' = ''data/conditions.json'';
          sha' = (case getContent s of Inl err \<Rightarrow> None | Inr fileSha \<Rightarrow> Some fileSha);
          request = \<lparr>owner = GITHUB_OWNER s, repo = GITHUB_REPO s, path = path',
                     commitMessage = ''Update conditions data'',
                     fileContent = base64 s (jsonStringify s data 2),
                     sha = sha'\<rparr>
      in (createOrUpdate s request,
          [GetContent (GITHUB_OWNER s) (GITHUB_REPO s) path', CreateOrUpdateFileContents request]))"

text \<open>
  What a run leaves behind: the calls made to the store, the alerts posted (each kept as
  its first line; none when \<^verbatim>\<open>DISCORD_WEBHOOK\<close> is unset or empty, and an error of the
  post is swallowed) and the
  exit status, 1 from \<^verbatim>\<open>process.exit(1)\<close> in the \<^verbatim>\<open>catch\<close> of \<^verbatim>\<open>main\<close>.
\<close>

record runResult =
  storeCalls :: "storeCall list"
  alerts :: "string list"
  exitCode :: nat

definition notifyError :: "'h surroundings \<Rightarrow> error \<Rightarrow> string list" where
  "notifyError s err =
     (case DISCORD_WEBHOOK s of
        None \<Rightarrow> []
      | Some hook \<Rightarrow>
          if hook \<noteq> [] then [''Error updating ski conditions: '' @ message err] else [])"

definition main :: "'h surroundings \<Rightarrow> runResult" where
  "main s =
     (case assemble s of
        Inl err \<Rightarrow> \<lparr>storeCalls = [], alerts = notifyError s err, exitCode = 1\<rparr>
      | Inr data \<Rightarrow>
          (case updateGitHubData s data of
             (Inl err, made) \<Rightarrow> \<lparr>storeCalls = made, alerts = notifyError s err, exitCode = 1\<rparr>
           | (Inr done, made) \<Rightarrow> \<lparr>storeCalls = made, alerts = [], exitCode = 0\<rparr>))"

section \<open>Notions of the specification\<close>

text \<open>
  A date parsed successfully: an object was returned (not \<^verbatim>\<open>null\<close>) and it is a valid
  date. \<open>timeOf\<close> is then its time value.
\<close>

definition parsedOk :: "jsDate option \<Rightarrow> bool" where
  "parsedOk d = (case d of Some (Some t) \<Rightarrow> True | _ \<Rightarrow> False)"

definition timeOf :: "jsDate option \<Rightarrow> int" where
  "timeOf d = (case d of Some (Some t) \<Rightarrow> t | _ \<Rightarrow> 0)"

text \<open>
  The shape "Weekday, Month Day" of a header's date segment, as in \<^verbatim>\<open>Tue, Jan 14\<close>: a
  weekday name, a comma and a space, a month name, a space, a day number of one or two
  digits. Names are accepted abbreviated or in full.
\<close>

definition weekdayNames :: "string list" where
  "weekdayNames =
     [''Mon'', ''Tue'', ''Wed'', ''Thu'', ''Fri'', ''Sat'', ''Sun'',
      ''Monday'', ''Tuesday'', ''Wednesday'', ''Thursday'', ''Friday'', ''Saturday'', ''Sunday'']"

definition monthAbbreviations :: "string list" where
  "monthAbbreviations =
     [''Jan'', ''Feb'', ''Mar'', ''Apr'', ''May'', ''Jun'',
      ''Jul'', ''Aug'', ''Sep'', ''Oct'', ''Nov'', ''Dec'']"

definition monthNames :: "string list" where
  "monthNames =
     monthAbbreviations @
     [''January'', ''February'', ''March'', ''April'', ''June'', ''July'', ''August'',
      ''September'', ''October'', ''November'', ''December'']"

definition isDigit :: "char \<Rightarrow> bool" where
  "isDigit c = ((48::nat) \<le> of_char c \<and> of_char c \<le> (57::nat))"

definition isDayNumber :: "string \<Rightarrow> bool" where
  "isDayNumber s = (s \<noteq> [] \<and> length s \<le> 2 \<and> list_all isDigit s)"

definition specHeaderDateShape :: "string \<Rightarrow> bool" where
  "specHeaderDateShape s =
     (case splitStr s '', '' of
        [weekday, monthDay] \<Rightarrow>
          weekday \<in> set weekdayNames \<and>
          (case splitStr monthDay '' '' of
             [month, day] \<Rightarrow> month \<in> set monthNames \<and> isDayNumber day
           | _ \<Rightarrow> False)
      | _ \<Rightarrow> False)"

section \<open>A date constructor for evaluated examples\<close>

text \<open>
  The theorems below hold for every \<^verbatim>\<open>Date\<close> constructor. Where the code is evaluated
  on an example, this one is used: it reads texts of the form \<^verbatim>\<open>Jan 14, 2025\<close> as
  midnight UTC of that day, in milliseconds since the epoch, and gives an invalid date for
  any other text.
\<close>

definition readNat :: "string \<Rightarrow> nat option" where
  "readNat s =
     (if s \<noteq> [] \<and> list_all isDigit s
      then Some (foldl (\<lambda>n c. 10 * n + (of_char c - 48)) 0 s)
      else None)"

fun indexOf :: "'a \<Rightarrow> 'a list \<Rightarrow> nat option" where
  "indexOf x [] = None"
| "indexOf x (y # ys) = (if x = y then Some 0 else map_option Suc (indexOf x ys))"

definition daysFromCivil :: "int \<Rightarrow> int \<Rightarrow> int \<Rightarrow> int" where
  "daysFromCivil y m d =
     (let y' = (if m \<le> 2 then y - 1 else y);
          era = y' div 400;
          yoe = y' - era * 400;
          mp = (m + 9) mod 12;
          doy = (153 * mp + 2) div 5 + d - 1;
          doe = yoe * 365 + yoe div 4 - yoe div 100 + doy
      in era * 146097 + doe - 719468)"

definition sampleNewDate :: "string \<Rightarrow> int option" where
  "sampleNewDate s =
     (case splitStr s '', '' of
        [monthDay, year] \<Rightarrow>
          (case splitStr monthDay '' '' of
             [month, day] \<Rightarrow>
               (case (indexOf month monthAbbreviations, readNat day, readNat year) of
                  (Some m, Some d, Some y) \<Rightarrow>
                    if 1 \<le> d \<and> d \<le> 31
                    then Some (daysFromCivil (int y) (int m + 1) (int d) * 86400000)
                    else None
                | _ \<Rightarrow> None)
           | _ \<Rightarrow> None)
      | _ \<Rightarrow> None)"

section \<open>Operations for evaluated examples\<close>

text \<open>
  Two operations on a world that counts the calls made: one that always throws, and one
  that throws twice and then returns the number of the call.
\<close>

definition downOp :: "nat \<Rightarrow> (error + nat) \<times> nat" where
  "downOp n = (Inl (Error ''down''), Suc n)"

definition flakyOp :: "nat \<Rightarrow> (error + nat) \<times> nat" where
  "flakyOp n = (if n < 2 then Inl (Error ''down'') else Inr n, Suc n)"

section \<open>Surroundings for evaluated examples\<close>

text \<open>
  A run in which every request of the weather, bulletin and trail-report adapters fails
  on every attempt, the resort page arrives, the store has no file yet and accepts the
  write. Serialisation is the runtime's, not the program's: the examples use a stand-in
  that lists the property names, and the identity for base64.
\<close>

definition unreachable :: "nat \<Rightarrow> error + 'a" where
  "unreachable n = Inl (Error ''connect ECONNREFUSED'')"

definition sampleRows :: "string list list" where
  "sampleRows =
     [[''Date:'', ''Tue, Jan 14''],
      ['' Lifts Open: '', '' 8 of 8 ''],
      [''New Snow since yesterday:'', ''2'', ''5'', ''9'', ''61'']]"

definition sampleStringify :: "document \<Rightarrow> nat \<Rightarrow> string" where
  "sampleStringify data indent = concat (map (\<lambda>property. fst property @ '';'') data)"

definition sampleWeatherDown :: "unit weatherEnv" where
  "sampleWeatherDown =
     \<lparr>dnsOk = True,
      pointFetch = (\<lambda>locationKey url. unreachable),
      forecastFetch = (\<lambda>locationKey url. unreachable),
      hourlyFetch = (\<lambda>locationKey url. unreachable),
      clock = (\<lambda>locationKey. 1736856000000),
      dateParse = sampleNewDate\<rparr>"

definition sampleNordicDown :: nordicEnv where
  "sampleNordicDown =
     \<lparr>regionFetch = (\<lambda>region. unreachable), newDate = sampleNewDate, currentYear = 2025\<rparr>"

definition sampleDegraded :: "unit surroundings" where
  "sampleDegraded =
     \<lparr>weatherEnv = sampleWeatherDown,
      parkFetch = (\<lambda>parkId url. unreachable),
      parkOrder = parkMap,
      nordicEnv = sampleNordicDown,
      regionOrder = regions,
      nubsNobFetch = (\<lambda>n. Inr sampleRows),
      isoTimestamp = ''2025-01-14T12:00:00.000Z'',
      GITHUB_OWNER = ''stosento'',
      GITHUB_REPO = ''ski-conditions-data'',
      DISCORD_WEBHOOK = None,
      remoteMarker = None,
      readFailure = None,
      createOrUpdate = (\<lambda>request. Inr ()),
      jsonStringify = sampleStringify,
      base64 = (\<lambda>text. text)\<rparr>"

text \<open>
  The same run against a store that holds the file, once with the read answered and once
  with the read timing out.
\<close>

definition sampleUpdate :: "unit surroundings" where
  "sampleUpdate = sampleDegraded\<lparr>remoteMarker := Some ''95b966ae''\<rparr>"

definition sampleReadFails :: "unit surroundings" where
  "sampleReadFails =
     sampleDegraded\<lparr>remoteMarker := Some ''95b966ae'',
                      readFailure := Some (Error ''connect ETIMEDOUT'')\<rparr>"

text \<open>
  A weather provider that answers: every point lookup gives the same forecast URL, the
  general forecast has one period and the hourly forecast a body. In the partial variant
  the point lookup for \<^verbatim>\<open>shelbyTownship\<close> fails on every attempt.
\<close>

definition samplePeriod :: period where
  "samplePeriod =
     \<lparr>periodName = ''Tonight'',
      startTime = ''2025-01-14T18:00:00-05:00'',
      temperature = 18,
      probabilityOfPrecipitation = Some 60,
      shortForecast = ''Snow Showers Likely'',
      detailedForecast =
        ''Snow showers likely. Low around 18. New snow accumulation of 1 to 3 inches possible.''\<rparr>"

definition sampleIsoDate :: "string \<Rightarrow> int option" where
  "sampleIsoDate text =
     (if text = ''2025-01-14T18:00:00-05:00'' then Some 1736895600000 else None)"

definition sampleWeatherUp :: "string weatherEnv" where
  "sampleWeatherUp =
     \<lparr>dnsOk = True,
      pointFetch = (\<lambda>locationKey url n. Inr ''https://api.weather.gov/gridpoints/APX/40,60/forecast''),
      forecastFetch = (\<lambda>locationKey url n. Inr [samplePeriod]),
      hourlyFetch = (\<lambda>locationKey url n. Inr ''hourly body A''),
      clock = (\<lambda>locationKey. 1736856000000),
      dateParse = sampleIsoDate\<rparr>"

definition sampleWeatherPartial :: "string weatherEnv" where
  "sampleWeatherPartial =
     sampleWeatherUp
       \<lparr>pointFetch := (\<lambda>locationKey url n.
          if locationKey = ''shelbyTownship'' then unreachable n
          else Inr ''https://api.weather.gov/gridpoints/APX/40,60/forecast'')\<rparr>"

definition sampleWeatherOtherHourly :: "string weatherEnv" where
  "sampleWeatherOtherHourly =
     sampleWeatherUp\<lparr>hourlyFetch := (\<lambda>locationKey url n. Inr ''hourly body B'')\<rparr>"

text \<open>A bulletin page, served to every park or, in the partial variant, not to Huron Meadows.\<close>

definition samplePanel :: panel where
  "samplePanel =
     \<lparr>titleText = '' Stony Creek Metropark '',
      strongs =
        [\<lparr>strongText = ''Stony Creek Cross Country Ski Trails: '',
          parentParagraph = ''Stony Creek Cross Country Ski Trails: Closed, not enough snow. ''\<rparr>,
         \<lparr>strongText = ''Golf Course'', parentParagraph = ''Golf Course closed for the season''\<rparr>]\<rparr>"

definition sampleParkUp :: "string \<Rightarrow> string \<Rightarrow> nat \<Rightarrow> error + panel option" where
  "sampleParkUp parkId url n = Inr (Some samplePanel)"

definition sampleParkPartial :: "string \<Rightarrow> string \<Rightarrow> nat \<Rightarrow> error + panel option" where
  "sampleParkPartial parkId url n =
     (if parkId = ''HuronMeadowsMetropark'' then unreachable n else Inr (Some samplePanel))"


definition sampleTuesday :: h4 where
  "sampleTuesday =
     \<lparr>headerText = ''Tue, Jan 14: Nubs Nob - XC'', nextParagraph = ''Fresh snow, trails reset.''\<rparr>"


definition sampleNordicPartial :: nordicEnv where
  "sampleNordicPartial =
     \<lparr>regionFetch = (\<lambda>region n. if region = 11 then unreachable n else Inr [sampleTuesday]),
      newDate = sampleNewDate, currentYear = 2025\<rparr>"

text \<open>Entries of the merged map as the two sample headers produce them, and one without a date.\<close>

definition sampleEntryMonday :: trailEntry where
  "sampleEntryMonday =
     \<lparr>lastUpdated = ''Mon, Jan 13'', conditions = ''Groomed this morning.'',
      date = Some (Some 1736726400000)\<rparr>"

definition sampleEntryTuesday :: trailEntry where
  "sampleEntryTuesday =
     \<lparr>lastUpdated = ''Tue, Jan 14'', conditions = ''Fresh snow, trails reset.'',
      date = Some (Some 1736812800000)\<rparr>"

definition sampleEntryUndated :: trailEntry where
  "sampleEntryUndated =
     \<lparr>lastUpdated = ''yesterday'', conditions = ''Icy in the shade.'', date = None\<rparr>"





text \<open>A header and a paragraph with no-break spaces at the edges of their parts.\<close>

definition sampleNoBreak :: h4 where
  "sampleNoBreak =
     \<lparr>headerText = ''Tue, Jan 14:'' @ CHR 0xA0 # ''Nubs Nob'',
      nextParagraph = CHR 0xA0 # ''Fresh snow, trails reset.'' @ [CHR 0xA0]\<rparr>"

section \<open>Facts about the string primitives\<close>

lemma includes_sublist: "includesStr s m \<longleftrightarrow> sublist m s"
  by (induction s) (auto simp: sublist_Cons_right)

lemma splitFrom_single_Cons:
  "splitFrom [c] cur (x # xs) =
     (if x = c then cur # splitFrom [c] [] xs else splitFrom [c] (cur @ [x]) xs)"
  by simp

lemma findFirst_None_iff: "findFirst p xs = None \<longleftrightarrow> (\<forall>x \<in> set xs. \<not> p x)"
  by (induction xs) auto

lemma findFirst_Some_holds: "findFirst p xs = Some x \<Longrightarrow> p x"
  by (induction xs) (auto split: if_splits)

lemma sublist_across_separator:
  assumes "c \<notin> set m"
  shows "sublist m (a @ c # b) \<longleftrightarrow> sublist m a \<or> sublist m b"
proof
  assume "sublist m (a @ c # b)"
  then consider "sublist m a" | "sublist m (c # b)"
    | xs1 xs2 where "m = xs1 @ xs2" "suffix xs1 a" "prefix xs2 (c # b)"
    by (auto simp: sublist_append)
  then show "sublist m a \<or> sublist m b"
  proof cases
    case 1
    then show ?thesis by simp
  next
    case 2
    then have "prefix m (c # b) \<or> sublist m b"
      by (simp add: sublist_Cons_right)
    with assms show ?thesis
      by (cases m) (auto simp: prefix_Cons)
  next
    case 3
    show ?thesis
    proof (cases xs2)
      case Nil
      with 3 have "suffix m a" by simp
      then show ?thesis by auto
    next
      case (Cons y ys)
      with 3 have "y = c" by (simp add: prefix_Cons)
      with Cons 3 assms show ?thesis by simp
    qed
  qed
next
  assume "sublist m a \<or> sublist m b"
  then show "sublist m (a @ c # b)"
    by (auto simp: sublist_append sublist_Cons_right)
qed

text \<open>
  A text without the separator character occurs in a string exactly when it occurs in one
  of the pieces the string splits into.
\<close>

lemma splitFrom_single_includes:
  assumes "c \<notin> set m"
  shows "(\<exists>p \<in> set (splitFrom [c] cur s). includesStr p m) \<longleftrightarrow> includesStr (cur @ s) m"
proof (induction s arbitrary: cur)
  case Nil
  show ?case by simp
next
  case (Cons x xs)
  show ?case
  proof (cases "x = c")
    case True
    have "(\<exists>p \<in> set (splitFrom [c] cur (x # xs)). includesStr p m)
            \<longleftrightarrow> includesStr cur m \<or> includesStr xs m"
      using True Cons.IH [of "[]"] by simp
    also have "\<dots> \<longleftrightarrow> includesStr (cur @ x # xs) m"
      using True assms by (simp add: includes_sublist sublist_across_separator)
    finally show ?thesis .
  next
    case False
    then show ?thesis using Cons.IH [of "cur @ [x]"] by simp
  qed
qed

section \<open>Retry executor: the contract\<close>

lemma attempt_shift: "attempt fn (snd (fn w)) n = attempt fn w (Suc n)"
  by (simp add: attempt_def)

lemma fetchLoop_success:
  assumes "\<forall>n < m. isl (attempt fn (world st) n)"
    and "attempt fn (world st) m = Inr v"
    and "of_nat (i + m) < retries"
  shows "fetchLoop fn retries i st =
           (Resolved v,
            st\<lparr>world := worldAfter fn (world st) (Suc m),
               calls := calls st + Suc m,
               delays := delays st @ map (\<lambda>j. setTimeoutWait (1000 * 2 ^ (i + j))) [0..<m],
               retryLog := retryLog st @ map (\<lambda>j. (Suc (i + j), retries)) [0..<m]\<rparr>)"
  using assms
proof (induction m arbitrary: i st)
  case 0
  then obtain w where "fn (world st) = (Inr v, w)"
    by (cases "fn (world st)") (simp add: attempt_def)
  with 0 show ?case by (subst fetchLoop.simps) simp
next
  case (Suc m)
  from Suc.prems(1) have "isl (attempt fn (world st) 0)" by blast
  then obtain err w where step: "fn (world st) = (Inl err, w)"
    by (cases "fn (world st)") (auto simp: attempt_def isl_def)
  let ?st = "st\<lparr>world := w, calls := Suc (calls st),
                 delays := delays st @ [setTimeoutWait (1000 * 2 ^ i)],
                 retryLog := retryLog st @ [(Suc i, retries)]\<rparr>"
  have w: "w = snd (fn (world st))" using step by simp
  have fails: "\<forall>n < m. isl (attempt fn (world ?st) n)"
    using Suc.prems(1) by (auto simp: w attempt_shift)
  have succ: "attempt fn (world ?st) m = Inr v"
    using Suc.prems(2) by (simp add: w attempt_shift)
  have bound: "of_nat (Suc i + m) < retries" using Suc.prems(3) by simp
  have here: "of_nat i < retries" "of_nat i \<noteq> retries - 1"
    using Suc.prems(3) by simp_all
  have d: "map (\<lambda>j. setTimeoutWait (1000 * 2 ^ (i + j))) [0..<Suc m]
             = setTimeoutWait (1000 * 2 ^ i) #
               map (\<lambda>j. setTimeoutWait (1000 * 2 ^ (Suc i + j))) [0..<m]"
    by (simp only: map_upt_Suc) simp
  have l: "map (\<lambda>j. (Suc (i + j), retries)) [0..<Suc m]
             = (Suc i, retries) # map (\<lambda>j. (Suc (Suc i + j), retries)) [0..<m]"
    by (simp only: map_upt_Suc) simp
  have "fetchLoop fn retries i st = fetchLoop fn retries (Suc i) ?st"
    using step here by (subst fetchLoop.simps) simp
  also note Suc.IH [OF fails succ bound]
  finally show ?case
    unfolding d l by (simp add: w)
qed

lemma fetchLoop_exhausted:
  assumes "\<forall>n \<le> m. isl (attempt fn (world st) n)"
    and "of_nat (i + m) = retries - 1"
  shows "fetchLoop fn retries i st =
           (Rejected (projl (attempt fn (world st) m)),
            st\<lparr>world := worldAfter fn (world st) (Suc m),
               calls := calls st + Suc m,
               delays := delays st @ map (\<lambda>j. setTimeoutWait (1000 * 2 ^ (i + j))) [0..<m],
               retryLog := retryLog st @ map (\<lambda>j. (Suc (i + j), retries)) [0..<m]\<rparr>)"
  using assms
proof (induction m arbitrary: i st)
  case 0
  then obtain err w where "fn (world st) = (Inl err, w)"
    by (cases "fn (world st)") (auto simp: attempt_def isl_def)
  moreover from 0 have "of_nat i < retries" "of_nat i = retries - 1"
    by simp_all
  ultimately show ?case by (subst fetchLoop.simps) (simp add: attempt_def)
next
  case (Suc m)
  from Suc.prems(1) have "isl (attempt fn (world st) 0)" by blast
  then obtain err w where step: "fn (world st) = (Inl err, w)"
    by (cases "fn (world st)") (auto simp: attempt_def isl_def)
  let ?st = "st\<lparr>world := w, calls := Suc (calls st),
                 delays := delays st @ [setTimeoutWait (1000 * 2 ^ i)],
                 retryLog := retryLog st @ [(Suc i, retries)]\<rparr>"
  have w: "w = snd (fn (world st))" using step by simp
  have fails: "\<forall>n \<le> m. isl (attempt fn (world ?st) n)"
    using Suc.prems(1) by (auto simp: w attempt_shift)
  have bound: "of_nat (Suc i + m) = retries - 1" using Suc.prems(2) by simp
  have r: "retries = of_nat (i + Suc m) + 1"
    using Suc.prems(2) by simp
  have here: "of_nat i < retries" "of_nat i \<noteq> retries - 1"
    unfolding r by simp_all
  have d: "map (\<lambda>j. setTimeoutWait (1000 * 2 ^ (i + j))) [0..<Suc m]
             = setTimeoutWait (1000 * 2 ^ i) #
               map (\<lambda>j. setTimeoutWait (1000 * 2 ^ (Suc i + j))) [0..<m]"
    by (simp only: map_upt_Suc) simp
  have l: "map (\<lambda>j. (Suc (i + j), retries)) [0..<Suc m]
             = (Suc i, retries) # map (\<lambda>j. (Suc (Suc i + j), retries)) [0..<m]"
    by (simp only: map_upt_Suc) simp
  have "fetchLoop fn retries i st = fetchLoop fn retries (Suc i) ?st"
    using step here by (subst fetchLoop.simps) simp
  also note Suc.IH [OF fails bound]
  finally show ?case
    unfolding d l by (simp add: w attempt_shift)
qed

lemma fetchLoop_none: "retries \<le> of_nat i \<Longrightarrow> fetchLoop fn retries i st = (ResolvedUndefined, st)"
  by (subst fetchLoop.simps) simp

lemma worldAfter_downOp: "worldAfter downOp w n = w + n"
  by (induction n arbitrary: w) (simp_all add: downOp_def)

lemma worldAfter_flakyOp: "worldAfter flakyOp w n = w + n"
  by (induction n arbitrary: w) (simp_all add: flakyOp_def)

lemma attempt_downOp: "attempt downOp w n = Inl (Error ''down'')"
  by (simp add: attempt_def downOp_def)

lemma attempt_flakyOp: "attempt flakyOp w n = (if w + n < 2 then Inl (Error ''down'') else Inr (w + n))"
  by (simp add: attempt_def worldAfter_flakyOp) (simp add: flakyOp_def)

lemma fetchWithRetry_exhausted:
  assumes "1 \<le> n" and "\<forall>m < n. isl (attempt fn w m)"
  shows "fetchWithRetry fn (of_nat n) w =
           (Rejected (projl (attempt fn w (n - 1))),
            \<lparr>world = worldAfter fn w n, calls = n, delays = backoff (n - 1),
             retryLog = map (\<lambda>j. (Suc j, of_nat n)) [0..<n - 1]\<rparr>)"
proof -
  let ?st = "\<lparr>world = w, calls = 0, delays = [], retryLog = []\<rparr>"
  have a: "\<forall>m \<le> n - 1. isl (attempt fn (world ?st) m)"
    using assms by auto
  have b: "(of_nat (0 + (n - 1)) :: rat) = of_nat n - 1"
    using assms(1) by (simp add: of_nat_diff)
  have c: "Suc (n - 1) = n"
    using assms(1) by simp
  show ?thesis
    unfolding fetchWithRetry_def fetchLoop_exhausted [OF a b] c
    by (simp add: backoff_def)
qed

lemma fetchWithRetry_success:
  assumes "1 \<le> k" and "of_nat k \<le> retries" and "\<forall>n < k - 1. isl (attempt fn w n)"
    and "attempt fn w (k - 1) = Inr v"
  shows "fetchWithRetry fn retries w =
           (Resolved v,
            \<lparr>world = worldAfter fn w k, calls = k, delays = backoff (k - 1),
             retryLog = map (\<lambda>j. (Suc j, retries)) [0..<k - 1]\<rparr>)"
proof -
  let ?st = "\<lparr>world = w, calls = 0, delays = [], retryLog = []\<rparr>"
  have a: "\<forall>n < k - 1. isl (attempt fn (world ?st) n)"
    using assms by auto
  have a': "attempt fn (world ?st) (k - 1) = Inr v"
    using assms by simp
  have "(of_nat (k - 1) :: rat) < of_nat k"
    using assms(1) by simp
  with assms(2) have b: "of_nat (0 + (k - 1)) < retries"
    by simp
  have c: "Suc (k - 1) = k"
    using assms(1) by simp
  show ?thesis
    unfolding fetchWithRetry_def fetchLoop_success [OF a a' b] c
    by (simp add: backoff_def)
qed

lemma setTimeoutWait_doubling: "i \<le> 21 \<Longrightarrow> setTimeoutWait (1000 * 2 ^ i) = 1000 * 2 ^ i"
proof -
  assume "i \<le> 21"
  then have "(2::nat) ^ i \<le> 2 ^ 21"
    by (intro power_increasing) simp_all
  then have "1000 * (2::nat) ^ i \<le> 2147483647"
    by simp
  then show ?thesis
    by (simp add: setTimeoutWait_def TIMEOUT_MAX_def)
qed

lemma setTimeoutWait_overflow: "22 \<le> i \<Longrightarrow> setTimeoutWait (1000 * 2 ^ i) = 1"
proof -
  assume "22 \<le> i"
  then have "(2::nat) ^ 22 \<le> 2 ^ i"
    by (intro power_increasing) simp_all
  then have "2147483647 < 1000 * (2::nat) ^ i"
    by simp
  then show ?thesis
    by (simp add: setTimeoutWait_def TIMEOUT_MAX_def)
qed


lemma backoff_nth: "i < n \<Longrightarrow> backoff n ! i = setTimeoutWait (1000 * 2 ^ i)"
  by (simp add: backoff_def)

lemma backoff_2: "backoff 2 = [1000, 2000]"
  by (simp add: backoff_def numeral_2_eq_2 setTimeoutWait_def TIMEOUT_MAX_def)

text \<open>
  C3, for whole bounds from 1 to \<open>2\<^sup>5\<^sup>3\<close>. For every operation and every world it
  starts in: if the bound is a whole number of at least 1 and the operation throws on
  each of the first \<open>n\<close> calls, \<open>n\<close> being the bound, the executor calls it exactly \<open>n\<close>
  times and rejects with the error of the last call; if the operation first returns on
  its \<open>k\<close>-th call, with \<open>k\<close> at most the bound (whole or not), the executor calls it
  exactly \<open>k\<close> times and resolves with that value. After each failed call that is
  followed by another one the executor waits: 1000, 2000, 4000, ... milliseconds,
  doubling each time up to the wait after the 22nd failure (2097152000 ms), and 1 ms
  after every later failure, where the delay asked for exceeds the timer's maximum.
  With the default bound the calls are 3 and the waits 1000 and 2000.
\<close>

theorem fetchWithRetry_contract:
  "(1 \<le> n \<and> n \<le> 2 ^ 53 \<and> (\<forall>m < n. isl (attempt fn w m)) \<longrightarrow>
      fst (fetchWithRetry fn (of_nat n) w) = Rejected (projl (attempt fn w (n - 1))) \<and>
      calls (snd (fetchWithRetry fn (of_nat n) w)) = n \<and>
      delays (snd (fetchWithRetry fn (of_nat n) w)) = backoff (n - 1)) \<and>
   (1 \<le> k \<and> of_nat k \<le> retries \<and> retries \<le> 2 ^ 53 \<and>
      (\<forall>m < k - 1. isl (attempt fn w m)) \<and> attempt fn w (k - 1) = Inr v \<longrightarrow>
      fst (fetchWithRetry fn retries w) = Resolved v \<and>
      calls (snd (fetchWithRetry fn retries w)) = k \<and>
      delays (snd (fetchWithRetry fn retries w)) = backoff (k - 1)) \<and>
   ((\<forall>m < 3. isl (attempt fn w m)) \<longrightarrow>
      fst (fetchWithRetry fn defaultRetries w) = Rejected (projl (attempt fn w 2)) \<and>
      calls (snd (fetchWithRetry fn defaultRetries w)) = 3 \<and>
      delays (snd (fetchWithRetry fn defaultRetries w)) = [1000, 2000]) \<and>
   (i < n \<and> i \<le> 21 \<longrightarrow> backoff n ! i = 1000 * 2 ^ i) \<and>
   (i < n \<and> 22 \<le> i \<longrightarrow> backoff n ! i = 1)"
proof (intro conjI impI)
  assume h: "1 \<le> n \<and> n \<le> 2 ^ 53 \<and> (\<forall>m < n. isl (attempt fn w m))"
  then have e: "fetchWithRetry fn (of_nat n) w =
           (Rejected (projl (attempt fn w (n - 1))),
            \<lparr>world = worldAfter fn w n, calls = n, delays = backoff (n - 1),
             retryLog = map (\<lambda>j. (Suc j, of_nat n)) [0..<n - 1]\<rparr>)"
    by (intro fetchWithRetry_exhausted) simp_all
  show "fst (fetchWithRetry fn (of_nat n) w) = Rejected (projl (attempt fn w (n - 1)))"
    by (simp add: e)
  show "calls (snd (fetchWithRetry fn (of_nat n) w)) = n"
    by (simp add: e)
  show "delays (snd (fetchWithRetry fn (of_nat n) w)) = backoff (n - 1)"
    by (simp add: e)
next
  assume h: "1 \<le> k \<and> of_nat k \<le> retries \<and> retries \<le> 2 ^ 53 \<and>
      (\<forall>m < k - 1. isl (attempt fn w m)) \<and> attempt fn w (k - 1) = Inr v"
  then have e: "fetchWithRetry fn retries w =
           (Resolved v,
            \<lparr>world = worldAfter fn w k, calls = k, delays = backoff (k - 1),
             retryLog = map (\<lambda>j. (Suc j, retries)) [0..<k - 1]\<rparr>)"
    by (intro fetchWithRetry_success) simp_all
  show "fst (fetchWithRetry fn retries w) = Resolved v"
    by (simp add: e)
  show "calls (snd (fetchWithRetry fn retries w)) = k"
    by (simp add: e)
  show "delays (snd (fetchWithRetry fn retries w)) = backoff (k - 1)"
    by (simp add: e)
next
  assume h: "\<forall>m < 3. isl (attempt fn w m)"
  have "fetchWithRetry fn (of_nat 3) w =
           (Rejected (projl (attempt fn w (3 - 1))),
            \<lparr>world = worldAfter fn w 3, calls = 3, delays = backoff (3 - 1),
             retryLog = map (\<lambda>j. (Suc j, of_nat 3)) [0..<3 - 1]\<rparr>)"
    using h by (intro fetchWithRetry_exhausted) simp_all
  then have e: "fetchWithRetry fn defaultRetries w =
           (Rejected (projl (attempt fn w 2)),
            \<lparr>world = worldAfter fn w 3, calls = 3, delays = [1000, 2000],
             retryLog = map (\<lambda>j. (Suc j, 3)) [0..<2]\<rparr>)"
    by (simp add: defaultRetries_def backoff_2)
  show "fst (fetchWithRetry fn defaultRetries w) = Rejected (projl (attempt fn w 2))"
    by (simp add: e)
  show "calls (snd (fetchWithRetry fn defaultRetries w)) = 3"
    by (simp add: e)
  show "delays (snd (fetchWithRetry fn defaultRetries w)) = [1000, 2000]"
    by (simp add: e)
next
  assume "i < n \<and> i \<le> 21"
  then show "backoff n ! i = 1000 * 2 ^ i"
    by (simp add: backoff_nth setTimeoutWait_doubling)
next
  assume "i < n \<and> 22 \<le> i"
  then show "backoff n ! i = 1"
    by (simp add: backoff_nth setTimeoutWait_overflow)
qed

theorem fetchWithRetry_contract_witness:
  "fst (fetchWithRetry downOp 3 0) = Rejected (Error ''down'') \<and>
   calls (snd (fetchWithRetry downOp 3 0)) = 3 \<and>
   delays (snd (fetchWithRetry downOp 3 0)) = [1000, 2000] \<and>
   fst (fetchWithRetry flakyOp (7 / 2) 0) = Resolved 2 \<and>
   calls (snd (fetchWithRetry flakyOp (7 / 2) 0)) = 3 \<and>
   delays (snd (fetchWithRetry flakyOp (7 / 2) 0)) = [1000, 2000] \<and>
   calls (snd (fetchWithRetry downOp defaultRetries 0)) = 3 \<and>
   backoff 30 ! 21 = 2097152000 \<and>
   backoff 30 ! 22 = 1"
proof -
  have f: "\<forall>m < 2. isl (attempt flakyOp 0 m)"
    by (simp add: attempt_flakyOp)
  have s: "attempt flakyOp 0 2 = Inr 2"
    by (simp add: attempt_flakyOp)
  from fetchWithRetry_contract [where n = 3 and fn = downOp and w = 0]
  have "fst (fetchWithRetry downOp 3 0) = Rejected (Error ''down'') \<and>
   calls (snd (fetchWithRetry downOp 3 0)) = 3 \<and>
   delays (snd (fetchWithRetry downOp 3 0)) = [1000, 2000] \<and>
   calls (snd (fetchWithRetry downOp defaultRetries 0)) = 3"
    by (simp add: attempt_downOp backoff_2)
  moreover from fetchWithRetry_contract
    [where retries = "7 / 2" and fn = flakyOp and w = 0 and k = 3 and v = 2] f s
  have "fst (fetchWithRetry flakyOp (7 / 2) 0) = Resolved 2 \<and>
   calls (snd (fetchWithRetry flakyOp (7 / 2) 0)) = 3 \<and>
   delays (snd (fetchWithRetry flakyOp (7 / 2) 0)) = [1000, 2000]"
    by (simp add: backoff_2)
  moreover from fetchWithRetry_contract
    [where n = 30 and i = 21 and fn = downOp and w = 0 and k = 1 and retries = 1 and v = 0]
  have "backoff 30 ! 21 = 2097152000"
    by simp
  moreover from fetchWithRetry_contract
    [where n = 30 and i = 22 and fn = downOp and w = 0 and k = 1 and retries = 1 and v = 0]
  have "backoff 30 ! 22 = 1"
    by simp
  ultimately show ?thesis by simp
qed

text \<open>
  Three bounds at which the operation fails on every attempt and the executor does not
  do what the contract says. With the bound 0 the loop body never runs: no call, and the
  promise resolves to \<^verbatim>\<open>undefined\<close>. With the bound 2.5 the test \<^verbatim>\<open>i === retries - 1\<close>
  never holds: after three calls the loop ends and the promise resolves to
  \<^verbatim>\<open>undefined\<close>. With the bound 24 the wait after the 23rd failure is 1 ms, not
  4194304000 ms.
\<close>

theorem fetchWithRetry_bound_counterexample:
  "fst (fetchWithRetry downOp 0 0) = ResolvedUndefined \<and>
   calls (snd (fetchWithRetry downOp 0 0)) = 0 \<and>
   fst (fetchWithRetry downOp (5 / 2) 0) = ResolvedUndefined \<and>
   calls (snd (fetchWithRetry downOp (5 / 2) 0)) = 3 \<and>
   fst (fetchWithRetry downOp 24 0) = Rejected (Error ''down'') \<and>
   delays (snd (fetchWithRetry downOp 24 0)) ! 22 = 1"
proof -
  have z: "fetchWithRetry downOp 0 0 =
             (ResolvedUndefined, \<lparr>world = 0, calls = 0, delays = [], retryLog = []\<rparr>)"
    by (simp add: fetchWithRetry_def fetchLoop_none)
  have h: "fetchWithRetry downOp (5 / 2) 0 =
             (ResolvedUndefined,
              \<lparr>world = 3, calls = 3, delays = [1000, 2000, 4000],
               retryLog = [(1, 5 / 2), (2, 5 / 2), (3, 5 / 2)]\<rparr>)"
    unfolding fetchWithRetry_def
    by (subst fetchLoop.simps, simp add: downOp_def setTimeoutWait_def TIMEOUT_MAX_def)+
  have "fetchWithRetry downOp (of_nat 24) 0 =
           (Rejected (projl (attempt downOp 0 (24 - 1))),
            \<lparr>world = worldAfter downOp 0 24, calls = 24, delays = backoff (24 - 1),
             retryLog = map (\<lambda>j. (Suc j, of_nat 24)) [0..<24 - 1]\<rparr>)"
    by (intro fetchWithRetry_exhausted) (simp_all add: attempt_downOp)
  then have t: "fst (fetchWithRetry downOp 24 0) = Rejected (Error ''down'')"
      "delays (snd (fetchWithRetry downOp 24 0)) = backoff 23"
    by (simp_all add: attempt_downOp)
  have "backoff 23 ! 22 = 1"
    using setTimeoutWait_overflow [of 22] by (simp add: backoff_nth)
  with z h t show ?thesis
    by simp
qed

section \<open>Snow-accumulation extraction\<close>

text \<open>
  C4. For every detailed-forecast string, the phrase the weather adapter extracts is the
  one the specification describes: the string is split on periods, the first sentence
  containing "New snow accumulation" is taken and trimmed, and the result is the empty
  string when no sentence contains the marker. For
  "Cloudy. New snow accumulation of 2 to 4 inches possible. Windy." the result is
  "New snow accumulation of 2 to 4 inches possible", without the sentences around it.
\<close>

theorem snowAccumulation_extraction:
  "snowAccumulation d = specSnowExtraction d \<and>
   snowAccumulation ''Cloudy. New snow accumulation of 2 to 4 inches possible. Windy.''
     = ''New snow accumulation of 2 to 4 inches possible''"
proof
  show "snowAccumulation d = specSnowExtraction d"
  proof (cases "includesStr d snowString")
    case True
    have nonempty: "s \<noteq> []"
      if "findFirst (\<lambda>s. includesStr s snowString) xs = Some s" for s xs
      using findFirst_Some_holds [OF that] by (auto simp: snowString_def)
    show ?thesis using True
      by (auto simp: snowAccumulation_def specSnowExtraction_def snowString_def [symmetric]
          split: option.splits dest: nonempty)
  next
    case False
    have "CHR ''.'' \<notin> set snowString"
      by (simp add: snowString_def)
    from splitFrom_single_includes [OF this, of "[]" d] False
    have "findFirst (\<lambda>s. includesStr s snowString) (splitStr d ''.'') = None"
      by (simp add: findFirst_None_iff splitStr_def)
    with False show ?thesis
      by (simp add: snowAccumulation_def specSnowExtraction_def snowString_def [symmetric])
  qed
next
  show "snowAccumulation ''Cloudy. New snow accumulation of 2 to 4 inches possible. Windy.''
          = ''New snow accumulation of 2 to 4 inches possible''"
    by (simp add: snowAccumulation_def snowString_def splitStr_def trim_def isWhiteSpace_def)
qed

theorem snowAccumulation_extraction_witness:
  "specSnowExtraction ''Snow likely. New snow accumulation of around an inch.''
     = ''New snow accumulation of around an inch'' \<and>
   specSnowExtraction ''Sunny, with a high near 20.'' = [] \<and>
   specSnowExtraction
     (''Cloudy.'' @ CHR 0xA0 # ''New snow accumulation of 1 inch'' @ CHR 0xA0 # ''. Windy.'')
     = ''New snow accumulation of 1 inch''"
proof -
  have a: "snowAccumulation ''Snow likely. New snow accumulation of around an inch.''
             = ''New snow accumulation of around an inch''"
    by (simp add: snowAccumulation_def snowString_def splitStr_def trim_def isWhiteSpace_def)
  have b: "snowAccumulation ''Sunny, with a high near 20.'' = []"
    by (simp add: snowAccumulation_def snowString_def)
  have c: "snowAccumulation
     (''Cloudy.'' @ CHR 0xA0 # ''New snow accumulation of 1 inch'' @ CHR 0xA0 # ''. Windy.'')
       = ''New snow accumulation of 1 inch''"
    by (simp add: snowAccumulation_def snowString_def splitStr_def trim_def isWhiteSpace_def)
  note e = snowAccumulation_extraction [THEN conjunct1, symmetric]
  show ?thesis
    unfolding e by (intro conjI a b c)
qed

section \<open>Requests behind the retry executor\<close>

lemma worldAfter_counter: "worldAfter (\<lambda>n. (requests n, Suc n)) w n = w + n"
  by (induction n arbitrary: w) simp_all

lemma attempt_counter: "attempt (\<lambda>n. (requests n, Suc n)) 0 n = requests n"
  by (simp add: attempt_def worldAfter_counter)

lemma awaitFetch_exhausted:
  assumes "\<forall>n < 3. isl (requests n)"
  shows "awaitFetch requests = Inl (projl (requests 2))"
proof -
  have "\<forall>n < 3. isl (attempt (\<lambda>n. (requests n, Suc n)) 0 n)"
    using assms by (simp add: attempt_counter)
  from fetchWithRetry_exhausted [of 3, OF _ this]
  show ?thesis
    by (simp add: awaitFetch_def attempt_counter defaultRetries_def)
qed

lemma awaitFetch_first_try: "requests 0 = Inr r \<Longrightarrow> awaitFetch requests = Inr r"
  using fetchWithRetry_success [of 1 defaultRetries "\<lambda>n. (requests n, Suc n)" 0 r]
  by (simp add: awaitFetch_def attempt_counter defaultRetries_def)

lemma awaitFetch_unreachable: "awaitFetch unreachable = Inl (Error ''connect ECONNREFUSED'')"
  using awaitFetch_exhausted [of unreachable] by (simp add: unreachable_def)

section \<open>The adapters on the degraded example\<close>

lemma getWeatherData_LOCATIONS:
  "getWeatherData env k =
     (if dnsOk env then map_option (locationEntry env k) (map_of LOCATIONS k) else None)"
  by (simp add: getWeatherData_def LOCATIONS_def)

lemma locationEntry_sampleWeatherDown:
  "locationEntry sampleWeatherDown k loc = placeholder loc 1736856000000"
  by (simp add: locationEntry_def sampleWeatherDown_def awaitFetch_unreachable)

lemma getWeatherData_sampleWeatherDown:
  "getWeatherData sampleWeatherDown =
     [''shelbyTownship'' \<mapsto> placeholder \<lparr>lat = ''42.6711'', lon = ''-83.0328'', name = ''Shelby Township''\<rparr> 1736856000000,
      ''nubsNob'' \<mapsto> placeholder \<lparr>lat = ''45.47'', lon = ''-84.903'', name = ''Nubs Nob''\<rparr> 1736856000000,
      ''otsegoResort'' \<mapsto> placeholder \<lparr>lat = ''45.032644409325755'', lon = ''-84.65170507777471'', name = ''Otsego Resort''\<rparr> 1736856000000]"
  by (simp add: getWeatherData_def LOCATIONS_def locationEntry_sampleWeatherDown)
    (simp add: sampleWeatherDown_def)

lemma getMetroparkConditions_down:
  "getMetroparkConditions (\<lambda>parkId url. unreachable) parkMap =
     [''HuronMeadowsMetropark'' \<mapsto>
        \<lparr>sections = [], title = None,
         error = Some ''Failed to fetch conditions: connect ECONNREFUSED''\<rparr>,
      ''StonyCreekMetropark'' \<mapsto>
        \<lparr>sections = [], title = None,
         error = Some ''Failed to fetch conditions: connect ECONNREFUSED''\<rparr>]"
  by (simp add: getMetroparkConditions_def parkMap_def parkHandler_def awaitFetch_unreachable)

lemma getNordic_down:
  "getNordicSkiRacerConditions sampleNordicDown regions = Map.empty"
  by (simp add: getNordicSkiRacerConditions_def mergedConditions_def regions_def
      regionHandler_def sampleNordicDown_def awaitFetch_unreachable fun_eq_iff)

lemma getNubsNob_sample:
  "getNubsNobConditions (\<lambda>n. Inr sampleRows) =
     Inr \<lparr>rcDate = ''Tue, Jan 14'', liftsOpen = ''8 of 8'', xcTrails = [], nightSkiing = [],
          comments = [],
          rcSnowData = \<lparr>daily = ''2'', threeDays = ''5'', sevenDays = ''9'', ytd = ''61''\<rparr>\<rparr>"
  by (simp add: getNubsNobConditions_def awaitFetch_first_try [of _ sampleRows])
     (simp add: sampleRows_def getValueByLabel_def getSnowData_def cellText_def trim_def
        isWhiteSpace_def)


section \<open>The assembled document and the run\<close>

lemma assemble_cases:
  "assemble s =
     (case getNubsNobConditions (nubsNobFetch s) of
        Inl err \<Rightarrow> Inl err
      | Inr nubsNob \<Rightarrow>
          Inr [(''timestamp'', Timestamp (isoTimestamp s)),
               (''weather'', Weather (getWeatherData (weatherEnv s))),
               (''metroparkConditions'',
                  MetroparkConditions (getMetroparkConditions (parkFetch s) (parkOrder s))),
               (''nordicConditions'',
                  NordicConditions (getNordicSkiRacerConditions (nordicEnv s) (regionOrder s))),
               (''nubsNob'', NubsNob nubsNob)])"
  by (simp add: assemble_def Let_def)

lemma main_writes:
  "storeCalls (main s) =
     (case assemble s of Inl err \<Rightarrow> [] | Inr data \<Rightarrow> snd (updateGitHubData s data))"
  by (simp add: main_def split: sum.splits prod.splits)

text \<open>
  C6. For every run that reaches the publish step, the assembled document has the
  properties \<^verbatim>\<open>timestamp\<close>, \<^verbatim>\<open>weather\<close>, \<^verbatim>\<open>metroparkConditions\<close>,
  \<^verbatim>\<open>nordicConditions\<close> and \<^verbatim>\<open>nubsNob\<close>, in this order and each holding what its
  adapter returned, whatever the adapters met; and any write the run issues carries the
  serialisation of such a document. A section is never left out: in the run where every
  isolated request fails, the weather section holds the placeholders, the bulletin
  section the error entries and the trail-report section the empty mapping.
\<close>

theorem published_document_sections:
  "(assemble s = Inr data \<longrightarrow>
      map fst data =
        [''timestamp'', ''weather'', ''metroparkConditions'', ''nordicConditions'', ''nubsNob''] \<and>
      (\<exists>resort. map snd data =
        [Timestamp (isoTimestamp s),
         Weather (getWeatherData (weatherEnv s)),
         MetroparkConditions (getMetroparkConditions (parkFetch s) (parkOrder s)),
         NordicConditions (getNordicSkiRacerConditions (nordicEnv s) (regionOrder s)),
         NubsNob resort])) \<and>
   (CreateOrUpdateFileContents request \<in> set (storeCalls (main s)) \<longrightarrow>
      (\<exists>data. assemble s = Inr data \<and>
         fileContent request = base64 s (jsonStringify s data 2) \<and>
         map fst data =
           [''timestamp'', ''weather'', ''metroparkConditions'', ''nordicConditions'', ''nubsNob'']))"
proof (intro conjI impI)
  assume a: "assemble s = Inr data"
  then show "map fst data =
        [''timestamp'', ''weather'', ''metroparkConditions'', ''nordicConditions'', ''nubsNob'']"
    by (auto simp: assemble_cases split: sum.splits)
  from a show "\<exists>resort. map snd data =
        [Timestamp (isoTimestamp s),
         Weather (getWeatherData (weatherEnv s)),
         MetroparkConditions (getMetroparkConditions (parkFetch s) (parkOrder s)),
         NordicConditions (getNordicSkiRacerConditions (nordicEnv s) (regionOrder s)),
         NubsNob resort]"
    by (auto simp: assemble_cases split: sum.splits)
next
  assume w: "CreateOrUpdateFileContents request \<in> set (storeCalls (main s))"
  then obtain data where d: "assemble s = Inr data"
    by (cases "assemble s") (auto simp: main_writes)
  with w have c: "fileContent request = base64 s (jsonStringify s data 2)"
    by (auto simp: main_writes updateGitHubData_def Let_def)
  from d have k: "map fst data =
        [''timestamp'', ''weather'', ''metroparkConditions'', ''nordicConditions'', ''nubsNob'']"
    by (auto simp: assemble_cases split: sum.splits)
  show "\<exists>data. assemble s = Inr data \<and>
         fileContent request = base64 s (jsonStringify s data 2) \<and>
         map fst data =
           [''timestamp'', ''weather'', ''metroparkConditions'', ''nordicConditions'', ''nubsNob'']"
    by (rule exI [of _ data]) (simp only: d c k simp_thms)
qed

lemma assemble_sampleDegraded:
  "assemble sampleDegraded =
     Inr [(''timestamp'', Timestamp ''2025-01-14T12:00:00.000Z''),
          (''weather'', Weather (getWeatherData sampleWeatherDown)),
          (''metroparkConditions'',
             MetroparkConditions (getMetroparkConditions (\<lambda>parkId url. unreachable) parkMap)),
          (''nordicConditions'', NordicConditions Map.empty),
          (''nubsNob'',
             NubsNob \<lparr>rcDate = ''Tue, Jan 14'', liftsOpen = ''8 of 8'', xcTrails = [],
                      nightSkiing = [], comments = [],
                      rcSnowData = \<lparr>daily = ''2'', threeDays = ''5'', sevenDays = ''9'',
                                    ytd = ''61''\<rparr>\<rparr>)]"
  by (simp add: assemble_cases sampleDegraded_def getNubsNob_sample getNordic_down)

theorem published_document_sections_witness:
  "map fst (projr (assemble sampleDegraded)) =
     [''timestamp'', ''weather'', ''metroparkConditions'', ''nordicConditions'', ''nubsNob''] \<and>
   map snd (projr (assemble sampleDegraded)) =
     [Timestamp ''2025-01-14T12:00:00.000Z'',
      Weather
        [''shelbyTownship'' \<mapsto>
           placeholder \<lparr>lat = ''42.6711'', lon = ''-83.0328'', name = ''Shelby Township''\<rparr>
             1736856000000,
         ''nubsNob'' \<mapsto>
           placeholder \<lparr>lat = ''45.47'', lon = ''-84.903'', name = ''Nubs Nob''\<rparr> 1736856000000,
         ''otsegoResort'' \<mapsto>
           placeholder \<lparr>lat = ''45.032644409325755'', lon = ''-84.65170507777471'',
                        name = ''Otsego Resort''\<rparr> 1736856000000],
      MetroparkConditions
        [''HuronMeadowsMetropark'' \<mapsto>
           \<lparr>sections = [], title = None,
            error = Some ''Failed to fetch conditions: connect ECONNREFUSED''\<rparr>,
         ''StonyCreekMetropark'' \<mapsto>
           \<lparr>sections = [], title = None,
            error = Some ''Failed to fetch conditions: connect ECONNREFUSED''\<rparr>],
      NordicConditions Map.empty,
      NubsNob \<lparr>rcDate = ''Tue, Jan 14'', liftsOpen = ''8 of 8'', xcTrails = [],
               nightSkiing = [], comments = [],
               rcSnowData = \<lparr>daily = ''2'', threeDays = ''5'', sevenDays = ''9'',
                             ytd = ''61''\<rparr>\<rparr>] \<and>
   exitCode (main sampleDegraded) = 0"
proof -
  have a: "assemble sampleDegraded = Inr (projr (assemble sampleDegraded))"
    by (simp add: assemble_sampleDegraded)
  have e: "exitCode (main sampleDegraded) = 0"
    by (simp add: main_def assemble_sampleDegraded updateGitHubData_def Let_def)
      (simp add: sampleDegraded_def)
  from published_document_sections [of sampleDegraded "projr (assemble sampleDegraded)"] a
  have "map fst (projr (assemble sampleDegraded)) =
     [''timestamp'', ''weather'', ''metroparkConditions'', ''nordicConditions'', ''nubsNob'']"
    by blast
  moreover have "map snd (projr (assemble sampleDegraded)) =
     [Timestamp ''2025-01-14T12:00:00.000Z'',
      Weather (getWeatherData sampleWeatherDown),
      MetroparkConditions (getMetroparkConditions (\<lambda>parkId url. unreachable) parkMap),
      NordicConditions Map.empty,
      NubsNob \<lparr>rcDate = ''Tue, Jan 14'', liftsOpen = ''8 of 8'', xcTrails = [],
               nightSkiing = [], comments = [],
               rcSnowData = \<lparr>daily = ''2'', threeDays = ''5'', sevenDays = ''9'',
                             ytd = ''61''\<rparr>\<rparr>]"
    by (simp add: assemble_sampleDegraded)
  ultimately show ?thesis
    using e by (simp only: getWeatherData_sampleWeatherDown getMetroparkConditions_down simp_thms)
qed

text \<open>
  C7. When the single page request of the single-resort adapter fails on each of its
  three attempts, the adapter ends with that error and nothing else (no field is
  produced), the aggregator ends with the same error, the run makes no call to the store
  at all, neither read nor write, and it exits with status 1.
\<close>

theorem nubsNob_failure_aborts:
  "(\<forall>n < 3. isl (nubsNobFetch s n)) \<longrightarrow>
     getNubsNobConditions (nubsNobFetch s) = Inl (projl (nubsNobFetch s 2)) \<and>
     assemble s = Inl (projl (nubsNobFetch s 2)) \<and>
     storeCalls (main s) = [] \<and>
     exitCode (main s) = 1"
proof
  assume "\<forall>n < 3. isl (nubsNobFetch s n)"
  then have a: "awaitFetch (nubsNobFetch s) = Inl (projl (nubsNobFetch s 2))"
    by (rule awaitFetch_exhausted)
  then have g: "getNubsNobConditions (nubsNobFetch s) = Inl (projl (nubsNobFetch s 2))"
    by (simp add: getNubsNobConditions_def)
  then have b: "assemble s = Inl (projl (nubsNobFetch s 2))"
    by (simp add: assemble_cases)
  show "getNubsNobConditions (nubsNobFetch s) = Inl (projl (nubsNobFetch s 2)) \<and>
     assemble s = Inl (projl (nubsNobFetch s 2)) \<and>
     storeCalls (main s) = [] \<and>
     exitCode (main s) = 1"
    using g b by (simp add: main_def)
qed

theorem nubsNob_failure_aborts_witness:
  "main (sampleDegraded\<lparr>nubsNobFetch := unreachable\<rparr>) =
     \<lparr>storeCalls = [], alerts = [], exitCode = 1\<rparr> \<and>
   assemble (sampleDegraded\<lparr>nubsNobFetch := unreachable\<rparr>) =
     Inl (Error ''connect ECONNREFUSED'')"
proof -
  let ?s = "sampleDegraded\<lparr>nubsNobFetch := unreachable\<rparr>"
  have f: "\<forall>n < 3. isl (nubsNobFetch ?s n)"
    by (simp add: unreachable_def)
  have p: "projl (nubsNobFetch ?s 2) = Error ''connect ECONNREFUSED''"
    by (simp add: unreachable_def)
  from nubsNob_failure_aborts [of ?s] f
  have r: "assemble ?s = Inl (projl (nubsNobFetch ?s 2)) \<and> storeCalls (main ?s) = [] \<and>
           exitCode (main ?s) = 1"
    by blast
  then have "alerts (main ?s) = []"
    by (simp add: main_def notifyError_def) (simp add: sampleDegraded_def)
  with r show ?thesis
    unfolding p by (cases "main ?s") simp
qed

text \<open>
  What the publisher does for every store: two calls in this order, a read of
  \<^verbatim>\<open>data/conditions.json\<close> and a write to the same path, whose content is the base64
  encoding of \<^verbatim>\<open>JSON.stringify(data, null, 2)\<close>; the publisher ends the way the write
  ends. When the read is answered, the write carries the marker of the file if there is
  one and no marker if there is none.
\<close>

lemma updateGitHubData_calls:
  "\<exists>request.
     snd (updateGitHubData s data) =
       [GetContent (GITHUB_OWNER s) (GITHUB_REPO s) ''data/conditions.json'',
        CreateOrUpdateFileContents request] \<and>
     fst (updateGitHubData s data) = createOrUpdate s request \<and>
     owner request = GITHUB_OWNER s \<and> repo request = GITHUB_REPO s \<and>
     path request = ''data/conditions.json'' \<and>
     fileContent request = base64 s (jsonStringify s data 2) \<and>
     sha request = (case getContent s of Inl err \<Rightarrow> None | Inr marker \<Rightarrow> Some marker)"
  by (simp add: updateGitHubData_def Let_def)

lemma updateGitHubData_read_answered:
  "readFailure s = None \<Longrightarrow>
     snd (updateGitHubData s data) =
       [GetContent (GITHUB_OWNER s) (GITHUB_REPO s) ''data/conditions.json'',
        CreateOrUpdateFileContents
          \<lparr>owner = GITHUB_OWNER s, repo = GITHUB_REPO s, path = ''data/conditions.json'',
           commitMessage = ''Update conditions data'',
           fileContent = base64 s (jsonStringify s data 2),
           sha = remoteMarker s\<rparr>]"
  by (simp add: updateGitHubData_def getContent_def Let_def split: option.splits)

lemma updateGitHubData_read_failed:
  "readFailure s = Some err \<Longrightarrow>
     snd (updateGitHubData s data) =
       [GetContent (GITHUB_OWNER s) (GITHUB_REPO s) ''data/conditions.json'',
        CreateOrUpdateFileContents
          \<lparr>owner = GITHUB_OWNER s, repo = GITHUB_REPO s, path = ''data/conditions.json'',
           commitMessage = ''Update conditions data'',
           fileContent = base64 s (jsonStringify s data 2),
           sha = None\<rparr>]"
  by (simp add: updateGitHubData_def getContent_def Let_def)

lemma updateGitHubData_samples:
  "snd (updateGitHubData sampleDegraded []) =
     [GetContent ''stosento'' ''ski-conditions-data'' ''data/conditions.json'',
      CreateOrUpdateFileContents
        \<lparr>owner = ''stosento'', repo = ''ski-conditions-data'', path = ''data/conditions.json'',
         commitMessage = ''Update conditions data'', fileContent = [], sha = None\<rparr>]"
  "snd (updateGitHubData sampleUpdate []) =
     [GetContent ''stosento'' ''ski-conditions-data'' ''data/conditions.json'',
      CreateOrUpdateFileContents
        \<lparr>owner = ''stosento'', repo = ''ski-conditions-data'', path = ''data/conditions.json'',
         commitMessage = ''Update conditions data'', fileContent = [],
         sha = Some ''95b966ae''\<rparr>]"
  by (simp_all add: updateGitHubData_read_answered sampleUpdate_def sampleDegraded_def
      sampleStringify_def)

text \<open>
  C8. The publisher reads the marker first, writes without a marker when no file exists
  and writes with exactly the file's marker when one exists. The code does so only when
  the read is answered. In this run the store holds the file with the marker
  \<^verbatim>\<open>95b966ae\<close> and the read times out: the publisher takes the error for the absence
  of the file and issues the write without a marker.
\<close>

theorem updateGitHubData_drops_existing_marker:
  "remoteMarker sampleReadFails = Some ''95b966ae'' \<and>
   getContent sampleReadFails = Inl (Error ''connect ETIMEDOUT'') \<and>
   snd (updateGitHubData sampleReadFails []) =
     [GetContent ''stosento'' ''ski-conditions-data'' ''data/conditions.json'',
      CreateOrUpdateFileContents
        \<lparr>owner = ''stosento'', repo = ''ski-conditions-data'', path = ''data/conditions.json'',
         commitMessage = ''Update conditions data'', fileContent = [], sha = None\<rparr>]"
proof -
  have f: "readFailure sampleReadFails = Some (Error ''connect ETIMEDOUT'')"
    by (simp add: sampleReadFails_def)
  show ?thesis
    unfolding updateGitHubData_read_failed [OF f]
    by (simp add: getContent_def sampleReadFails_def sampleDegraded_def sampleStringify_def)
qed

section \<open>Isolation of the items of an adapter\<close>

lemma awaitFetch_permanent: "\<forall>n. isl (requests n) \<Longrightarrow> isl (awaitFetch requests)"
  by (simp add: awaitFetch_exhausted)

lemma locationEntry_failed:
  assumes "(\<forall>u n. isl (pointFetch env k u n)) \<or> (\<forall>u n. isl (forecastFetch env k u n)) \<or>
           (\<forall>u n. isl (hourlyFetch env k u n))"
  shows "locationEntry env k loc = placeholder loc (clock env k)"
proof (cases "awaitFetch (pointFetch env k
                (''https://api.weather.gov/points/'' @ lat loc @ '','' @ lon loc))")
  case (Inl err)
  then show ?thesis by (simp add: locationEntry_def)
next
  case (Inr forecastUrl)
  let ?h = "replaceFirst forecastUrl ''/forecast'' ''/forecast/hourly''"
  have "\<not> (\<forall>u n. isl (pointFetch env k u n))"
  proof
    assume "\<forall>u n. isl (pointFetch env k u n)"
    then have "isl (awaitFetch (pointFetch env k
                (''https://api.weather.gov/points/'' @ lat loc @ '','' @ lon loc)))"
      by (intro awaitFetch_permanent) simp
    with Inr show False by simp
  qed
  with assms consider
      (general) "\<forall>n. isl (forecastFetch env k forecastUrl n)"
    | (hourly) "\<forall>n. isl (hourlyFetch env k ?h n)"
    by blast
  then show ?thesis
  proof cases
    case general
    then obtain e where "awaitFetch (forecastFetch env k forecastUrl) = Inl e"
      using awaitFetch_permanent [of "forecastFetch env k forecastUrl"]
      by (cases "awaitFetch (forecastFetch env k forecastUrl)") simp_all
    with Inr show ?thesis
      by (simp add: locationEntry_def Let_def)
  next
    case hourly
    then obtain e where "awaitFetch (hourlyFetch env k ?h) = Inl e"
      using awaitFetch_permanent [of "hourlyFetch env k ?h"]
      by (cases "awaitFetch (hourlyFetch env k ?h)") simp_all
    with Inr show ?thesis
      by (simp add: locationEntry_def Let_def split: sum.splits)
  qed
qed

lemma locationEntry_cong:
  assumes "pointFetch e1 k = pointFetch e2 k" and "forecastFetch e1 k = forecastFetch e2 k"
    and "clock e1 k = clock e2 k" and "dateParse e1 = dateParse e2"
    and "\<forall>u. isl (awaitFetch (hourlyFetch e1 k u)) = isl (awaitFetch (hourlyFetch e2 k u))"
  shows "locationEntry e1 k loc = locationEntry e2 k loc"
proof -
  let ?url = "''https://api.weather.gov/points/'' @ lat loc @ '','' @ lon loc"
  show ?thesis
  proof (cases "awaitFetch (pointFetch e2 k ?url)")
    case (Inl err)
    then show ?thesis by (simp add: locationEntry_def assms(1,3))
  next
    case (Inr forecastUrl)
    let ?h = "replaceFirst forecastUrl ''/forecast'' ''/forecast/hourly''"
    from assms(5) have s: "isl (awaitFetch (hourlyFetch e1 k ?h)) = isl (awaitFetch (hourlyFetch e2 k ?h))"
      by blast
    show ?thesis
    proof (cases "awaitFetch (forecastFetch e2 k forecastUrl)")
      case Inl
      with Inr show ?thesis
        by (simp add: locationEntry_def Let_def assms(1-4))
    next
      case general: (Inr periods)
      show ?thesis
        using Inr general s
        by (cases "awaitFetch (hourlyFetch e1 k ?h)"; cases "awaitFetch (hourlyFetch e2 k ?h)")
          (simp_all add: locationEntry_def Let_def assms(1-4))
    qed
  qed
qed

lemma parkHandler_cong: "pf (fst park) = pf' (fst park) \<Longrightarrow> parkHandler pf park = parkHandler pf' park"
  by (cases park) (simp add: parkHandler_def)

lemma parks_fold_cong:
  assumes "pf j = pf' j" and "c j = c' j"
  shows "foldl (\<lambda>conditions park. conditions(fst park \<mapsto> parkHandler pf park)) c order j =
         foldl (\<lambda>conditions park. conditions(fst park \<mapsto> parkHandler pf' park)) c' order j"
  using assms(2)
proof (induction order arbitrary: c c')
  case Nil
  then show ?case by simp
next
  case (Cons park order)
  have "(c(fst park \<mapsto> parkHandler pf park)) j = (c'(fst park \<mapsto> parkHandler pf' park)) j"
  proof (cases "fst park = j")
    case True
    with assms(1) have "parkHandler pf park = parkHandler pf' park"
      by (intro parkHandler_cong) simp
    with True show ?thesis by simp
  next
    case False
    with Cons.prems show ?thesis by simp
  qed
  then show ?case
    unfolding foldl_Cons by (rule Cons.IH)
qed

lemma regionHandler_failed: "\<forall>n. isl (regionFetch env r n) \<Longrightarrow> regionHandler env conds r = conds"
  using awaitFetch_permanent [of "regionFetch env r"]
  by (auto simp: regionHandler_def isl_def)

lemma regions_fold_skip:
  assumes "\<forall>n. isl (regionFetch env r n)"
  shows "foldl (regionHandler env) c order = foldl (regionHandler env) c (removeAll r order)"
proof (induction order arbitrary: c)
  case Nil
  show ?case by simp
next
  case (Cons a order)
  show ?case
  proof (cases "a = r")
    case True
    then show ?thesis
      using Cons.IH [of c] by (simp add: regionHandler_failed [OF assms])
  next
    case False
    then show ?thesis
      using Cons.IH [of "regionHandler env c a"] by simp
  qed
qed


lemma awaitFetch_always: "awaitFetch (\<lambda>n. Inr r) = Inr r"
  by (rule awaitFetch_first_try) simp

lemma weather_partial_nubsNob:
  "getWeatherData sampleWeatherPartial ''nubsNob'' =
     Some \<lparr>weName = ''Nubs Nob'',
           forecast =
             [\<lparr>fpName = ''Tonight'', timestamp = Some 1736895600000, temp = Some 18,
               snowfall = Some 60,
               snowAmount = ''New snow accumulation of 1 to 3 inches possible'',
               fpShortForecast = ''Snow Showers Likely'',
               fpDetailedForecast =
                 Some ''Snow showers likely. Low around 18. New snow accumulation of 1 to 3 inches possible.''\<rparr>]\<rparr>"
  by (simp add: getWeatherData_LOCATIONS LOCATIONS_def locationEntry_def sampleWeatherPartial_def
        sampleWeatherUp_def awaitFetch_always Let_def)
     (simp add: processPeriod_def samplePeriod_def sampleIsoDate_def snowAccumulation_def
        snowString_def splitStr_def trim_def isWhiteSpace_def)

lemma parks_partial_stony:
  "getMetroparkConditions sampleParkPartial parkMap ''StonyCreekMetropark'' =
     Some \<lparr>sections =
             [\<lparr>header = ''Stony Creek Cross Country Ski Trails:'',
               content = ''Closed, not enough snow.''\<rparr>],
           title = Some ''Stony Creek Metropark'', error = None\<rparr>"
proof -
  have "sampleParkPartial ''StonyCreekMetropark'' u = (\<lambda>n. Inr (Some samplePanel))" for u
    by (simp add: fun_eq_iff sampleParkPartial_def)
  then show ?thesis
    by (simp add: getMetroparkConditions_def parkMap_def parkHandler_def awaitFetch_always)
      (simp add: samplePanel_def panelSections_def trim_def isWhiteSpace_def)
qed

text \<open>
  C5. A permanent failure of the requests for one item leaves every other item as it is.
  Weather adapter: the entry of a location is the same in any two runs that agree on the
  requests and the clock reading of that location, whatever happens to the other
  locations; and a location one of whose three requests fails on every attempt gets
  exactly one forecast period named "Unavailable", with \<^verbatim>\<open>null\<close> temperature and
  \<^verbatim>\<open>null\<close> precipitation, the snow amount "0.0" and the message "Weather data
  temporarily unavailable". Bulletin adapter (one request per park): the entry of a park
  is the same in any two runs that agree on the requests for that park. Trail-report
  adapter: a region whose request fails on every attempt contributes nothing, so the
  result is the one obtained from the other regions alone.
\<close>

theorem item_failure_is_isolated:
  "(dnsOk e = dnsOk e' \<and> pointFetch e j = pointFetch e' j \<and>
      forecastFetch e j = forecastFetch e' j \<and> hourlyFetch e j = hourlyFetch e' j \<and>
      clock e j = clock e' j \<and> dateParse e = dateParse e' \<longrightarrow>
      getWeatherData e j = getWeatherData e' j) \<and>
   (dnsOk e \<and> map_of LOCATIONS k = Some loc \<and>
      ((\<forall>u n. isl (pointFetch e k u n)) \<or> (\<forall>u n. isl (forecastFetch e k u n)) \<or>
       (\<forall>u n. isl (hourlyFetch e k u n))) \<longrightarrow>
      getWeatherData e k =
        Some \<lparr>weName = name loc,
              forecast =
                [\<lparr>fpName = ''Unavailable'', timestamp = Some (clock e k), temp = None,
                  snowfall = None, snowAmount = ''0.0'',
                  fpShortForecast = ''Weather data temporarily unavailable'',
                  fpDetailedForecast = None\<rparr>]\<rparr>) \<and>
   (pf park = pf' park \<longrightarrow>
      getMetroparkConditions pf order park = getMetroparkConditions pf' order park) \<and>
   ((\<forall>n. isl (regionFetch env r n)) \<longrightarrow>
      getNordicSkiRacerConditions env arrival =
        getNordicSkiRacerConditions env (removeAll r arrival))"
proof (intro conjI impI)
  assume a: "dnsOk e = dnsOk e' \<and> pointFetch e j = pointFetch e' j \<and>
      forecastFetch e j = forecastFetch e' j \<and> hourlyFetch e j = hourlyFetch e' j \<and>
      clock e j = clock e' j \<and> dateParse e = dateParse e'"
  then have "locationEntry e j loc = locationEntry e' j loc" for loc
    by (intro locationEntry_cong) simp_all
  then have "locationEntry e j = locationEntry e' j"
    by (intro ext)
  with a show "getWeatherData e j = getWeatherData e' j"
    by (simp add: getWeatherData_LOCATIONS)
next
  assume a: "dnsOk e \<and> map_of LOCATIONS k = Some loc \<and>
      ((\<forall>u n. isl (pointFetch e k u n)) \<or> (\<forall>u n. isl (forecastFetch e k u n)) \<or>
       (\<forall>u n. isl (hourlyFetch e k u n)))"
  then have "locationEntry e k loc = placeholder loc (clock e k)"
    by (intro locationEntry_failed) simp
  with a show "getWeatherData e k =
        Some \<lparr>weName = name loc,
              forecast =
                [\<lparr>fpName = ''Unavailable'', timestamp = Some (clock e k), temp = None,
                  snowfall = None, snowAmount = ''0.0'',
                  fpShortForecast = ''Weather data temporarily unavailable'',
                  fpDetailedForecast = None\<rparr>]\<rparr>"
    by (simp add: getWeatherData_LOCATIONS placeholder_def)
next
  assume "pf park = pf' park"
  then show "getMetroparkConditions pf order park = getMetroparkConditions pf' order park"
    unfolding getMetroparkConditions_def by (intro parks_fold_cong) simp_all
next
  assume "\<forall>n. isl (regionFetch env r n)"
  then show "getNordicSkiRacerConditions env arrival =
        getNordicSkiRacerConditions env (removeAll r arrival)"
    by (simp add: getNordicSkiRacerConditions_def mergedConditions_def regions_fold_skip [symmetric])
qed


theorem item_failure_is_isolated_witness:
  "getWeatherData sampleWeatherPartial ''nubsNob'' = getWeatherData sampleWeatherUp ''nubsNob'' \<and>
   getWeatherData sampleWeatherPartial ''shelbyTownship'' =
     Some \<lparr>weName = ''Shelby Township'',
           forecast =
             [\<lparr>fpName = ''Unavailable'', timestamp = Some 1736856000000, temp = None,
               snowfall = None, snowAmount = ''0.0'',
               fpShortForecast = ''Weather data temporarily unavailable'',
               fpDetailedForecast = None\<rparr>]\<rparr> \<and>
   getMetroparkConditions sampleParkPartial parkMap ''StonyCreekMetropark'' =
     getMetroparkConditions sampleParkUp parkMap ''StonyCreekMetropark'' \<and>
   getNordicSkiRacerConditions sampleNordicPartial [11, 13] =
     getNordicSkiRacerConditions sampleNordicPartial [13]"
proof -
  note t = item_failure_is_isolated
    [where e = sampleWeatherPartial and e' = sampleWeatherUp and j = "''nubsNob''"
       and k = "''shelbyTownship''"
       and loc = "\<lparr>lat = ''42.6711'', lon = ''-83.0328'', name = ''Shelby Township''\<rparr>"
       and pf = sampleParkPartial and pf' = sampleParkUp and park = "''StonyCreekMetropark''"
       and order = parkMap and env = sampleNordicPartial and r = 11 and arrival = "[11, 13]"]
  have w: "dnsOk sampleWeatherPartial = dnsOk sampleWeatherUp \<and>
      pointFetch sampleWeatherPartial ''nubsNob'' = pointFetch sampleWeatherUp ''nubsNob'' \<and>
      forecastFetch sampleWeatherPartial ''nubsNob'' = forecastFetch sampleWeatherUp ''nubsNob'' \<and>
      hourlyFetch sampleWeatherPartial ''nubsNob'' = hourlyFetch sampleWeatherUp ''nubsNob'' \<and>
      clock sampleWeatherPartial ''nubsNob'' = clock sampleWeatherUp ''nubsNob'' \<and>
      dateParse sampleWeatherPartial = dateParse sampleWeatherUp"
    by (simp add: sampleWeatherPartial_def sampleWeatherUp_def)
  have f: "dnsOk sampleWeatherPartial \<and>
      map_of LOCATIONS ''shelbyTownship'' =
        Some \<lparr>lat = ''42.6711'', lon = ''-83.0328'', name = ''Shelby Township''\<rparr> \<and>
      (\<forall>u n. isl (pointFetch sampleWeatherPartial ''shelbyTownship'' u n))"
    by (simp add: sampleWeatherPartial_def sampleWeatherUp_def LOCATIONS_def unreachable_def)
  have c: "clock sampleWeatherPartial ''shelbyTownship'' = 1736856000000"
    by (simp add: sampleWeatherPartial_def sampleWeatherUp_def)
  have p: "sampleParkPartial ''StonyCreekMetropark'' = sampleParkUp ''StonyCreekMetropark''"
    by (simp add: fun_eq_iff sampleParkPartial_def sampleParkUp_def)
  have r: "\<forall>n. isl (regionFetch sampleNordicPartial 11 n)"
    by (simp add: sampleNordicPartial_def unreachable_def)
  have "getWeatherData sampleWeatherPartial ''nubsNob'' = getWeatherData sampleWeatherUp ''nubsNob''"
    using t w by blast
  moreover have "getWeatherData sampleWeatherPartial ''shelbyTownship'' =
     Some \<lparr>weName = ''Shelby Township'',
           forecast =
             [\<lparr>fpName = ''Unavailable'', timestamp = Some 1736856000000, temp = None,
               snowfall = None, snowAmount = ''0.0'',
               fpShortForecast = ''Weather data temporarily unavailable'',
               fpDetailedForecast = None\<rparr>]\<rparr>"
    using t f unfolding c by simp
  moreover have "getMetroparkConditions sampleParkPartial parkMap ''StonyCreekMetropark'' =
     getMetroparkConditions sampleParkUp parkMap ''StonyCreekMetropark''"
    using t p by blast
  moreover have "getNordicSkiRacerConditions sampleNordicPartial [11, 13] =
     getNordicSkiRacerConditions sampleNordicPartial [13]"
    using t r by simp
  ultimately show ?thesis by blast
qed

text \<open>
  C10. The hourly forecast is requested but its body never reaches the output. Two runs
  that agree on the point lookup, the general forecast, the clock and the date
  constructor, and whose hourly requests succeed or fail alike, give the same entry for
  the location, whatever the hourly bodies are (they may even be of different types);
  and when the three requests succeed, the entry is the location's name with the first
  twenty periods of the general forecast, processed one by one.
\<close>

theorem hourly_body_not_observed:
  "(dnsOk e1 = dnsOk e2 \<and> pointFetch e1 k = pointFetch e2 k \<and>
      forecastFetch e1 k = forecastFetch e2 k \<and> clock e1 k = clock e2 k \<and>
      dateParse e1 = dateParse e2 \<and>
      (\<forall>u. isl (awaitFetch (hourlyFetch e1 k u)) = isl (awaitFetch (hourlyFetch e2 k u))) \<longrightarrow>
      locationEntry e1 k loc = locationEntry e2 k loc \<and>
      getWeatherData e1 k = getWeatherData e2 k) \<and>
   (awaitFetch (pointFetch e1 k (''https://api.weather.gov/points/'' @ lat loc @ '','' @ lon loc))
        = Inr forecastUrl \<and>
      awaitFetch (forecastFetch e1 k forecastUrl) = Inr periods \<and>
      awaitFetch (hourlyFetch e1 k (replaceFirst forecastUrl ''/forecast'' ''/forecast/hourly''))
        = Inr hourlyResponse \<longrightarrow>
      locationEntry e1 k loc =
        \<lparr>weName = name loc, forecast = map (processPeriod (dateParse e1)) (take 20 periods)\<rparr>)"
proof (intro conjI impI)
  assume a: "dnsOk e1 = dnsOk e2 \<and> pointFetch e1 k = pointFetch e2 k \<and>
      forecastFetch e1 k = forecastFetch e2 k \<and> clock e1 k = clock e2 k \<and>
      dateParse e1 = dateParse e2 \<and>
      (\<forall>u. isl (awaitFetch (hourlyFetch e1 k u)) = isl (awaitFetch (hourlyFetch e2 k u)))"
  then have l: "locationEntry e1 k loc = locationEntry e2 k loc" for loc
    by (intro locationEntry_cong) simp_all
  then show "locationEntry e1 k loc = locationEntry e2 k loc" .
  from l have "locationEntry e1 k = locationEntry e2 k"
    by (intro ext)
  with a show "getWeatherData e1 k = getWeatherData e2 k"
    by (simp add: getWeatherData_LOCATIONS)
next
  assume "awaitFetch (pointFetch e1 k (''https://api.weather.gov/points/'' @ lat loc @ '','' @ lon loc))
        = Inr forecastUrl \<and>
      awaitFetch (forecastFetch e1 k forecastUrl) = Inr periods \<and>
      awaitFetch (hourlyFetch e1 k (replaceFirst forecastUrl ''/forecast'' ''/forecast/hourly''))
        = Inr hourlyResponse"
  then show "locationEntry e1 k loc =
        \<lparr>weName = name loc, forecast = map (processPeriod (dateParse e1)) (take 20 periods)\<rparr>"
    by (simp add: locationEntry_def Let_def)
qed

theorem hourly_body_not_observed_witness:
  "hourlyFetch sampleWeatherUp ''nubsNob'' [] 0 = Inr ''hourly body A'' \<and>
   hourlyFetch sampleWeatherOtherHourly ''nubsNob'' [] 0 = Inr ''hourly body B'' \<and>
   getWeatherData sampleWeatherUp ''nubsNob'' = getWeatherData sampleWeatherOtherHourly ''nubsNob''"
proof -
  have a: "dnsOk sampleWeatherUp = dnsOk sampleWeatherOtherHourly \<and>
      pointFetch sampleWeatherUp ''nubsNob'' = pointFetch sampleWeatherOtherHourly ''nubsNob'' \<and>
      forecastFetch sampleWeatherUp ''nubsNob'' = forecastFetch sampleWeatherOtherHourly ''nubsNob'' \<and>
      clock sampleWeatherUp ''nubsNob'' = clock sampleWeatherOtherHourly ''nubsNob'' \<and>
      dateParse sampleWeatherUp = dateParse sampleWeatherOtherHourly"
    by (simp add: sampleWeatherOtherHourly_def)
  have b: "\<forall>u. isl (awaitFetch (hourlyFetch sampleWeatherUp ''nubsNob'' u)) =
               isl (awaitFetch (hourlyFetch sampleWeatherOtherHourly ''nubsNob'' u))"
    by (simp add: sampleWeatherOtherHourly_def sampleWeatherUp_def awaitFetch_always)
  from hourly_body_not_observed
    [where ?e1.0 = sampleWeatherUp and ?e2.0 = sampleWeatherOtherHourly and k = "''nubsNob''"] a b
  have "getWeatherData sampleWeatherUp ''nubsNob'' = getWeatherData sampleWeatherOtherHourly ''nubsNob''"
    by blast
  then show ?thesis
    by (simp add: sampleWeatherOtherHourly_def sampleWeatherUp_def)
qed

section \<open>Trail-report merge\<close>

lemma mergeReport_irrelevant:
  "relevantLocation loc = None \<Longrightarrow> mergeReport nd y conds d loc p = conds"
  by (simp add: mergeReport_def)

lemma mergeReport_fresh:
  "relevantLocation loc \<noteq> None \<Longrightarrow> conds loc = None \<Longrightarrow>
     mergeReport nd y conds d loc p =
       conds(loc \<mapsto> \<lparr>lastUpdated = d, conditions = trim p, date = parseDateFromHeader nd y d\<rparr>)"
  by (auto simp: mergeReport_def Let_def)

lemma mergeReport_present:
  "relevantLocation loc \<noteq> None \<Longrightarrow> conds loc = Some existing \<Longrightarrow>
     mergeReport nd y conds d loc p =
       (if parsedOk (parseDateFromHeader nd y d) \<and> parsedOk (date existing) \<and>
           timeOf (date existing) < timeOf (parseDateFromHeader nd y d)
        then conds(loc \<mapsto> \<lparr>lastUpdated = d, conditions = trim p,
                              date = parseDateFromHeader nd y d\<rparr>)
        else conds)"
  by (auto simp: mergeReport_def Let_def laterThan_def parsedOk_def timeOf_def
      split: option.splits)

lemma mergeReport_other_keys: "k \<noteq> loc \<Longrightarrow> mergeReport nd y conds d loc p k = conds k"
  by (auto simp: mergeReport_def Let_def split: option.splits)

lemma processHeader_sections:
  "processHeader nd y conds hdr =
     (if length (splitStr (trim (headerText hdr)) '':'') < 2 then conds
      else mergeReport nd y conds (trim (splitStr (trim (headerText hdr)) '':'' ! 0))
             (trim (splitStr (trim (headerText hdr)) '':'' ! 1)) (nextParagraph hdr))"
  by (simp add: processHeader_def Let_def)

text \<open>
  C1. The callback cuts the date and the location segment out of the header and merges
  under the location segment itself, trimmed, not under the allowlist name it matched;
  no other key of the map changes, and a segment matching no relevant location changes
  nothing. A key with no entry yet takes the incoming report. For a key that already has
  an entry, the incoming report replaces it exactly when both dates parsed successfully
  and the incoming one is strictly later; otherwise, in particular when either date
  failed to parse, the map is left as it is.
\<close>

theorem merge_rule:
  "processHeader nd y conds hdr =
     (if length (splitStr (trim (headerText hdr)) '':'') < 2 then conds
      else mergeReport nd y conds (trim (splitStr (trim (headerText hdr)) '':'' ! 0))
             (trim (splitStr (trim (headerText hdr)) '':'' ! 1)) (nextParagraph hdr)) \<and>
   (relevantLocation loc = None \<longrightarrow> mergeReport nd y conds d loc p = conds) \<and>
   (relevantLocation loc \<noteq> None \<and> conds loc = None \<longrightarrow>
      mergeReport nd y conds d loc p =
        conds(loc \<mapsto> \<lparr>lastUpdated = d, conditions = trim p,
                         date = parseDateFromHeader nd y d\<rparr>)) \<and>
   (relevantLocation loc \<noteq> None \<and> conds loc = Some existing \<longrightarrow>
      mergeReport nd y conds d loc p =
        (if parsedOk (parseDateFromHeader nd y d) \<and> parsedOk (date existing) \<and>
            timeOf (date existing) < timeOf (parseDateFromHeader nd y d)
         then conds(loc \<mapsto> \<lparr>lastUpdated = d, conditions = trim p,
                               date = parseDateFromHeader nd y d\<rparr>)
         else conds)) \<and>
   (k \<noteq> loc \<longrightarrow> mergeReport nd y conds d loc p k = conds k)"
  using processHeader_sections [of nd y conds hdr] mergeReport_irrelevant [of loc nd y conds d p]
    mergeReport_fresh [of loc conds nd y d p] mergeReport_present [of loc conds existing nd y d p]
    mergeReport_other_keys [of k loc nd y conds d p]
  by (intro conjI impI; (elim conjE)?) assumption+


lemma showNat_2025: "showNat 2025 = ''2025''"
  by (simp add: showNat.simps [of 2025] showNat.simps [of 202] showNat.simps [of 20]
      showNat.simps [of 2] digitChar_def)

lemma relevant_sample: "relevantLocation ''Nubs Nob - XC'' = Some ''Nubs Nob''"
  by (simp add: relevantLocation_def relevantLocations_def toLowerCase_def lowerChar_def
      isUpperCase_def)

lemma parse_header_date:
  "parseDateFromHeader nd y ''Mon, Jan 13'' = Some (nd (''Jan 13, '' @ showNat y))"
  "parseDateFromHeader nd y ''Tue, Jan 14'' = Some (nd (''Jan 14, '' @ showNat y))"
  by (simp_all add: parseDateFromHeader_def splitStr_def Let_def)

lemma sampleNewDate_values:
  "sampleNewDate ''Jan 13, 2025'' = Some 1736726400000"
  "sampleNewDate ''Jan 14, 2025'' = Some 1736812800000"
  by (simp_all add: sampleNewDate_def splitStr_def monthAbbreviations_def readNat_def
      isDigit_def daysFromCivil_def Let_def)

lemma parse_sample_dates:
  "parseDateFromHeader sampleNewDate 2025 ''Mon, Jan 13'' = Some (Some 1736726400000)"
  "parseDateFromHeader sampleNewDate 2025 ''Tue, Jan 14'' = Some (Some 1736812800000)"
  "parseDateFromHeader sampleNewDate 2025 ''yesterday'' = None"
  using sampleNewDate_values
  by (simp_all add: parse_header_date showNat_2025) (simp add: parseDateFromHeader_def splitStr_def)

lemma relevant_plain: "relevantLocation ''Nubs Nob'' \<noteq> None"
  by (simp add: relevantLocation_def relevantLocations_def toLowerCase_def lowerChar_def
      isUpperCase_def)

lemma irrelevant_sample: "relevantLocation ''Boyne Highlands'' = None"
  by (simp add: relevantLocation_def relevantLocations_def toLowerCase_def lowerChar_def
      isUpperCase_def)

lemma noBreak_sections:
  "splitStr (trim (headerText sampleNoBreak)) '':'' = [''Tue, Jan 14'', CHR 0xA0 # ''Nubs Nob'']"
  "trim (CHR 0xA0 # ''Nubs Nob'') = ''Nubs Nob''"
  "trim ''Tue, Jan 14'' = ''Tue, Jan 14''"
  "trim (nextParagraph sampleNoBreak) = ''Fresh snow, trails reset.''"
  by (simp_all add: sampleNoBreak_def splitStr_def trim_def isWhiteSpace_def)

theorem merge_rule_witness:
  "mergeReport sampleNewDate 2025 [''Nubs Nob - XC'' \<mapsto> sampleEntryMonday]
       ''Tue, Jan 14'' ''Nubs Nob - XC'' ''Fresh snow, trails reset.''
     = [''Nubs Nob - XC'' \<mapsto> sampleEntryTuesday] \<and>
   mergeReport sampleNewDate 2025 [''Nubs Nob - XC'' \<mapsto> sampleEntryTuesday]
       ''Mon, Jan 13'' ''Nubs Nob - XC'' ''Groomed this morning.''
     = [''Nubs Nob - XC'' \<mapsto> sampleEntryTuesday] \<and>
   mergeReport sampleNewDate 2025 [''Nubs Nob - XC'' \<mapsto> sampleEntryMonday]
       ''yesterday'' ''Nubs Nob - XC'' ''Icy in the shade.''
     = [''Nubs Nob - XC'' \<mapsto> sampleEntryMonday] \<and>
   mergeReport sampleNewDate 2025 [''Nubs Nob - XC'' \<mapsto> sampleEntryUndated]
       ''Tue, Jan 14'' ''Nubs Nob - XC'' ''Fresh snow, trails reset.''
     = [''Nubs Nob - XC'' \<mapsto> sampleEntryUndated] \<and>
   mergeReport sampleNewDate 2025 Map.empty
       ''Mon, Jan 13'' ''Nubs Nob - XC'' ''Groomed this morning.''
     = [''Nubs Nob - XC'' \<mapsto> sampleEntryMonday] \<and>
   processHeader sampleNewDate 2025 Map.empty sampleNoBreak =
     [''Nubs Nob'' \<mapsto> sampleEntryTuesday] \<and>
   mergeReport sampleNewDate 2025 [''Nubs Nob - XC'' \<mapsto> sampleEntryMonday]
       ''Tue, Jan 14'' ''Boyne Highlands'' ''Open.''
     = [''Nubs Nob - XC'' \<mapsto> sampleEntryMonday] \<and>
   mergeReport sampleNewDate 2025 [''Nubs Nob - XC'' \<mapsto> sampleEntryMonday]
       ''Tue, Jan 14'' ''Nubs Nob'' ''Open.'' ''Nubs Nob - XC'' = Some sampleEntryMonday"
proof -
  have r: "relevantLocation ''Nubs Nob - XC'' \<noteq> None"
    by (simp add: relevant_sample)
  have t: "trim ''Fresh snow, trails reset.'' = ''Fresh snow, trails reset.''"
          "trim ''Groomed this morning.'' = ''Groomed this morning.''"
    by (simp_all add: trim_def isWhiteSpace_def)
  have 1: "mergeReport sampleNewDate 2025 [''Nubs Nob - XC'' \<mapsto> sampleEntryMonday]
       ''Tue, Jan 14'' ''Nubs Nob - XC'' ''Fresh snow, trails reset.''
     = [''Nubs Nob - XC'' \<mapsto> sampleEntryTuesday]"
    using r merge_rule [where loc = "''Nubs Nob - XC''" and nd = sampleNewDate and y = 2025
        and conds = "[''Nubs Nob - XC'' \<mapsto> sampleEntryMonday]" and existing = sampleEntryMonday
        and d = "''Tue, Jan 14''" and p = "''Fresh snow, trails reset.''"]
    by (simp add: parse_sample_dates t parsedOk_def timeOf_def sampleEntryMonday_def
        sampleEntryTuesday_def)
  have 2: "mergeReport sampleNewDate 2025 [''Nubs Nob - XC'' \<mapsto> sampleEntryTuesday]
       ''Mon, Jan 13'' ''Nubs Nob - XC'' ''Groomed this morning.''
     = [''Nubs Nob - XC'' \<mapsto> sampleEntryTuesday]"
    using r merge_rule [where loc = "''Nubs Nob - XC''" and nd = sampleNewDate and y = 2025
        and conds = "[''Nubs Nob - XC'' \<mapsto> sampleEntryTuesday]" and existing = sampleEntryTuesday
        and d = "''Mon, Jan 13''" and p = "''Groomed this morning.''"]
    by (simp add: parse_sample_dates t parsedOk_def timeOf_def sampleEntryTuesday_def)
  have 3: "mergeReport sampleNewDate 2025 [''Nubs Nob - XC'' \<mapsto> sampleEntryMonday]
       ''yesterday'' ''Nubs Nob - XC'' ''Icy in the shade.''
     = [''Nubs Nob - XC'' \<mapsto> sampleEntryMonday]"
    using r merge_rule [where loc = "''Nubs Nob - XC''" and nd = sampleNewDate and y = 2025
        and conds = "[''Nubs Nob - XC'' \<mapsto> sampleEntryMonday]" and existing = sampleEntryMonday
        and d = "''yesterday''" and p = "''Icy in the shade.''"]
    by (simp add: parse_sample_dates parsedOk_def)
  have 4: "mergeReport sampleNewDate 2025 [''Nubs Nob - XC'' \<mapsto> sampleEntryUndated]
       ''Tue, Jan 14'' ''Nubs Nob - XC'' ''Fresh snow, trails reset.''
     = [''Nubs Nob - XC'' \<mapsto> sampleEntryUndated]"
    using r merge_rule [where loc = "''Nubs Nob - XC''" and nd = sampleNewDate and y = 2025
        and conds = "[''Nubs Nob - XC'' \<mapsto> sampleEntryUndated]" and existing = sampleEntryUndated
        and d = "''Tue, Jan 14''" and p = "''Fresh snow, trails reset.''"]
    by (simp add: parse_sample_dates parsedOk_def sampleEntryUndated_def)
  have 5: "mergeReport sampleNewDate 2025 Map.empty
       ''Mon, Jan 13'' ''Nubs Nob - XC'' ''Groomed this morning.''
     = [''Nubs Nob - XC'' \<mapsto> sampleEntryMonday]"
    using r merge_rule [where loc = "''Nubs Nob - XC''" and nd = sampleNewDate and y = 2025
        and conds = Map.empty and d = "''Mon, Jan 13''" and p = "''Groomed this morning.''"]
    by (simp add: parse_sample_dates t sampleEntryMonday_def)
  have 6:
    "processHeader sampleNewDate 2025 Map.empty sampleNoBreak =
       [''Nubs Nob'' \<mapsto> sampleEntryTuesday]"
  proof -
    have "processHeader sampleNewDate 2025 Map.empty sampleNoBreak =
       mergeReport sampleNewDate 2025 Map.empty ''Tue, Jan 14'' ''Nubs Nob''
         (nextParagraph sampleNoBreak)"
      using merge_rule [where nd = sampleNewDate and y = 2025 and conds = Map.empty
          and hdr = sampleNoBreak and loc = "''Nubs Nob''" and d = "''Tue, Jan 14''"
          and p = "nextParagraph sampleNoBreak" and k = "''Nubs Nob - XC''"
          and existing = sampleEntryTuesday]
      by (simp add: noBreak_sections)
    moreover have "mergeReport sampleNewDate 2025 Map.empty ''Tue, Jan 14'' ''Nubs Nob''
         (nextParagraph sampleNoBreak) = [''Nubs Nob'' \<mapsto> sampleEntryTuesday]"
      using relevant_plain merge_rule [where nd = sampleNewDate and y = 2025 and conds = Map.empty
          and hdr = sampleNoBreak and loc = "''Nubs Nob''" and d = "''Tue, Jan 14''"
          and p = "nextParagraph sampleNoBreak" and k = "''Nubs Nob - XC''"
          and existing = sampleEntryTuesday]
      by (simp add: noBreak_sections parse_sample_dates sampleEntryTuesday_def)
    ultimately show ?thesis by simp
  qed
  have 7:
    "mergeReport sampleNewDate 2025 [''Nubs Nob - XC'' \<mapsto> sampleEntryMonday]
         ''Tue, Jan 14'' ''Boyne Highlands'' ''Open.''
       = [''Nubs Nob - XC'' \<mapsto> sampleEntryMonday]"
    using irrelevant_sample merge_rule [where nd = sampleNewDate and y = 2025
          and conds = "[''Nubs Nob - XC'' \<mapsto> sampleEntryMonday]"
          and hdr = sampleNoBreak and loc = "''Boyne Highlands''" and d = "''Tue, Jan 14''"
          and p = "''Open.''" and k = "''Nubs Nob - XC''" and existing = sampleEntryTuesday]
    by simp
  have 8:
    "mergeReport sampleNewDate 2025 [''Nubs Nob - XC'' \<mapsto> sampleEntryMonday]
         ''Tue, Jan 14'' ''Nubs Nob'' ''Open.'' ''Nubs Nob - XC'' = Some sampleEntryMonday"
    using merge_rule [where nd = sampleNewDate and y = 2025
          and conds = "[''Nubs Nob - XC'' \<mapsto> sampleEntryMonday]"
          and hdr = sampleNoBreak and loc = "''Nubs Nob''" and d = "''Tue, Jan 14''"
          and p = "''Open.''" and k = "''Nubs Nob - XC''" and existing = sampleEntryTuesday]
    by simp
  from 1 2 3 4 5 6 7 8 show ?thesis
    by (intro conjI)
qed


section \<open>Headers of a known shape\<close>






















section \<open>Header dates\<close>

lemma splitFrom_comma_free: "CHR '','' \<notin> set s \<Longrightarrow> splitFrom '', '' cur s = [cur @ s]"
  by (induction s arbitrary: cur) simp_all

lemma splitFrom_first_comma:
  "CHR '','' \<notin> set w \<Longrightarrow>
     splitFrom '', '' cur (w @ '', '' @ rest) = (cur @ w) # splitFrom '', '' [] rest"
  by (induction w arbitrary: cur) simp_all

lemma parseDateFromHeader_two_parts:
  assumes "CHR '','' \<notin> set w" and "CHR '','' \<notin> set md"
  shows "parseDateFromHeader nd y (w @ '', '' @ md) = Some (nd (md @ '', '' @ showNat y))"
  using splitFrom_first_comma [OF assms(1), of "[]" md] splitFrom_comma_free [OF assms(2), of "[]"]
  by (simp add: parseDateFromHeader_def splitStr_def Let_def)

text \<open>
  C9, as the code has it. \<^verbatim>\<open>parseDateFromHeader\<close> returns \<^verbatim>\<open>null\<close> exactly when splitting the
  segment on ", " does not give two parts. Otherwise it returns the \<^verbatim>\<open>Date\<close> the
  runtime constructs from the second part, a comma and the current year, valid or not:
  the first part, where the weekday stands, is never inspected. In the merge a
  \<^verbatim>\<open>null\<close> or invalid date on either side never leads to a replacement.
\<close>

theorem parseDateFromHeader_contract:
  "(parseDateFromHeader nd y s = None \<longleftrightarrow> length (splitStr s '', '') \<noteq> 2) \<and>
   (length (splitStr s '', '') = 2 \<longrightarrow>
      parseDateFromHeader nd y s = Some (nd (splitStr s '', '' ! 1 @ '', '' @ showNat y))) \<and>
   (CHR '','' \<notin> set w \<and> CHR '','' \<notin> set md \<longrightarrow>
      parseDateFromHeader nd y (w @ '', '' @ md) = Some (nd (md @ '', '' @ showNat y))) \<and>
   (relevantLocation loc \<noteq> None \<and> conds loc = Some existing \<and>
      (\<not> parsedOk (parseDateFromHeader nd y d) \<or> \<not> parsedOk (date existing)) \<longrightarrow>
      mergeReport nd y conds d loc p = conds)"
proof (intro conjI impI)
  show "parseDateFromHeader nd y s = None \<longleftrightarrow> length (splitStr s '', '') \<noteq> 2"
    by (simp add: parseDateFromHeader_def Let_def)
next
  assume "length (splitStr s '', '') = 2"
  then show "parseDateFromHeader nd y s = Some (nd (splitStr s '', '' ! 1 @ '', '' @ showNat y))"
    by (simp add: parseDateFromHeader_def Let_def)
next
  assume "CHR '','' \<notin> set w \<and> CHR '','' \<notin> set md"
  then show "parseDateFromHeader nd y (w @ '', '' @ md) = Some (nd (md @ '', '' @ showNat y))"
    by (intro parseDateFromHeader_two_parts) simp_all
next
  assume h: "relevantLocation loc \<noteq> None \<and> conds loc = Some existing \<and>
      (\<not> parsedOk (parseDateFromHeader nd y d) \<or> \<not> parsedOk (date existing))"
  then have "mergeReport nd y conds d loc p =
       (if parsedOk (parseDateFromHeader nd y d) \<and> parsedOk (date existing) \<and>
           timeOf (date existing) < timeOf (parseDateFromHeader nd y d)
        then conds(loc \<mapsto> \<lparr>lastUpdated = d, conditions = trim p,
                              date = parseDateFromHeader nd y d\<rparr>)
        else conds)"
    by (intro mergeReport_present) simp_all
  with h show "mergeReport nd y conds d loc p = conds"
    by auto
qed

theorem parseDateFromHeader_contract_witness:
  "parseDateFromHeader sampleNewDate 2025 ''Tue, Jan 14'' = Some (Some 1736812800000) \<and>
   parseDateFromHeader sampleNewDate 2025 ''xx, Jan 14'' = Some (Some 1736812800000) \<and>
   parseDateFromHeader sampleNewDate 2025 ''Tue, Smarch 14'' = Some None \<and>
   parseDateFromHeader sampleNewDate 2025 ''yesterday'' = None \<and>
   mergeReport sampleNewDate 2025 [''Nubs Nob - XC'' \<mapsto> sampleEntryUndated]
       ''Tue, Jan 14'' ''Nubs Nob - XC'' ''Fresh snow, trails reset.''
     = [''Nubs Nob - XC'' \<mapsto> sampleEntryUndated] \<and>
   mergeReport sampleNewDate 2025 [''Nubs Nob - XC'' \<mapsto> sampleEntryMonday]
       ''Tue, Smarch 14'' ''Nubs Nob - XC'' ''Fresh snow, trails reset.''
     = [''Nubs Nob - XC'' \<mapsto> sampleEntryMonday]"
proof -
  have r: "relevantLocation ''Nubs Nob - XC'' \<noteq> None"
    by (simp add: relevant_sample)
  have c: "CHR '','' \<notin> set ''Tue''" "CHR '','' \<notin> set ''xx''" "CHR '','' \<notin> set ''Jan 14''"
      "CHR '','' \<notin> set ''Smarch 14''"
    by simp_all
  have v: "sampleNewDate ''Smarch 14, 2025'' = None"
    by (simp add: sampleNewDate_def splitStr_def monthAbbreviations_def)
  have s: "length (splitStr ''yesterday'' '', '') \<noteq> 2"
    by (simp add: splitStr_def)
  have 1: "parseDateFromHeader sampleNewDate 2025 ''Tue, Jan 14'' = Some (Some 1736812800000)"
    using parseDateFromHeader_contract [where w = "''Tue''" and md = "''Jan 14''"
        and nd = sampleNewDate and y = 2025] c sampleNewDate_values
    by (simp add: showNat_2025)
  have 2: "parseDateFromHeader sampleNewDate 2025 ''xx, Jan 14'' = Some (Some 1736812800000)"
    using parseDateFromHeader_contract [where w = "''xx''" and md = "''Jan 14''"
        and nd = sampleNewDate and y = 2025] c sampleNewDate_values
    by (simp add: showNat_2025)
  have 3: "parseDateFromHeader sampleNewDate 2025 ''Tue, Smarch 14'' = Some None"
    using parseDateFromHeader_contract [where w = "''Tue''" and md = "''Smarch 14''"
        and nd = sampleNewDate and y = 2025] c v
    by (simp add: showNat_2025)
  have 4: "parseDateFromHeader sampleNewDate 2025 ''yesterday'' = None"
    using parseDateFromHeader_contract [where s = "''yesterday''" and nd = sampleNewDate
        and y = 2025] s
    by blast
  have 5: "mergeReport sampleNewDate 2025 [''Nubs Nob - XC'' \<mapsto> sampleEntryUndated]
       ''Tue, Jan 14'' ''Nubs Nob - XC'' ''Fresh snow, trails reset.''
     = [''Nubs Nob - XC'' \<mapsto> sampleEntryUndated]"
    using parseDateFromHeader_contract [where loc = "''Nubs Nob - XC''" and nd = sampleNewDate
        and y = 2025 and conds = "[''Nubs Nob - XC'' \<mapsto> sampleEntryUndated]"
        and existing = sampleEntryUndated and d = "''Tue, Jan 14''"
        and p = "''Fresh snow, trails reset.''"] r
    by (simp add: parsedOk_def sampleEntryUndated_def)
  have 6: "mergeReport sampleNewDate 2025 [''Nubs Nob - XC'' \<mapsto> sampleEntryMonday]
       ''Tue, Smarch 14'' ''Nubs Nob - XC'' ''Fresh snow, trails reset.''
     = [''Nubs Nob - XC'' \<mapsto> sampleEntryMonday]"
    using parseDateFromHeader_contract [where loc = "''Nubs Nob - XC''" and nd = sampleNewDate
        and y = 2025 and conds = "[''Nubs Nob - XC'' \<mapsto> sampleEntryMonday]"
        and existing = sampleEntryMonday and d = "''Tue, Smarch 14''"
        and p = "''Fresh snow, trails reset.''"] r 3
    by (simp add: parsedOk_def)
  from 1 2 3 4 5 6 show ?thesis
    by (intro conjI)
qed

text \<open>
  The segment "xx, Jan 14" has no weekday, so it is not of the shape "Weekday, Month
  Day", and yet it parses to the same valid date as "Tue, Jan 14".
\<close>

theorem parseDateFromHeader_shape_counterexample:
  "parsedOk (parseDateFromHeader sampleNewDate 2025 ''xx, Jan 14'') \<and>
   \<not> specHeaderDateShape ''xx, Jan 14'' \<and>
   specHeaderDateShape ''Tue, Jan 14'' \<and>
   parseDateFromHeader sampleNewDate 2025 ''xx, Jan 14'' =
     parseDateFromHeader sampleNewDate 2025 ''Tue, Jan 14''"
proof -
  have c: "CHR '','' \<notin> set ''Tue''" "CHR '','' \<notin> set ''xx''" "CHR '','' \<notin> set ''Jan 14''"
    by simp_all
  have "parseDateFromHeader sampleNewDate 2025 ''xx, Jan 14'' = Some (Some 1736812800000)"
       "parseDateFromHeader sampleNewDate 2025 ''Tue, Jan 14'' = Some (Some 1736812800000)"
    using parseDateFromHeader_two_parts [OF c(2,3), of sampleNewDate 2025]
      parseDateFromHeader_two_parts [OF c(1,3), of sampleNewDate 2025] sampleNewDate_values
    by (simp_all add: showNat_2025)
  moreover have "\<not> specHeaderDateShape ''xx, Jan 14''"
    by (simp add: specHeaderDateShape_def splitStr_def weekdayNames_def)
  moreover have "specHeaderDateShape ''Tue, Jan 14''"
    by (simp add: specHeaderDateShape_def splitStr_def weekdayNames_def monthNames_def
        monthAbbreviations_def isDayNumber_def isDigit_def)
  ultimately show ?thesis
    by (simp add: parsedOk_def)
qed

end
